theory Spec2Isabelle
  imports Complex_Main
begin

section \<open>COFFE background module: data model\<close>

text \<open>
  The C doubles of \<^verbatim>\<open>background.c\<close> are modelled as mathematical reals: rounding,
  overflow and the IEEE special values are outside this part of the model (HOL's
  \<open>x / 0 = 0\<close> stands where C would produce an infinity or a NaN; the theorems below
  state the hypotheses under which no such division occurs when they need one).
  \<^verbatim>\<open>pow(x, 2)\<close> is \<open>x\<^sup>2\<close> and \<^verbatim>\<open>pow(x, 1./2)\<close> is \<open>sqrt x\<close>.
\<close>

text \<open>
  \<^verbatim>\<open>struct coffe_interpolation\<close> (declared in \<^verbatim>\<open>common.h\<close>) holds a GSL spline and
  its accelerator. The model keeps what the code observes of it: the value and the
  derivative of the interpolant at a point.
\<close>

record coffe_interpolation =
  spline_eval :: "real \<Rightarrow> real"
  spline_eval_deriv :: "real \<Rightarrow> real"

text \<open>
  Modelled from the spec: \<^verbatim>\<open>interp_spline\<close> is defined in \<^verbatim>\<open>common.c\<close>; section 4.1 of the
  specification gives it as \<open>evaluate(handle, x) \<rightarrow> y\<close>.
\<close>

definition interp_spline :: "coffe_interpolation \<Rightarrow> real \<Rightarrow> real" where
  "interp_spline s x = spline_eval s x"

text \<open>\<^verbatim>\<open>gsl_spline_eval_deriv(s.spline, x, s.accel)\<close> of the GSL library.\<close>

definition gsl_spline_eval_deriv :: "coffe_interpolation \<Rightarrow> real \<Rightarrow> real" where
  "gsl_spline_eval_deriv s x = spline_eval_deriv s x"

record integration_params =
  ip_Omega0_cdm :: real
  ip_Omega0_baryon :: real
  ip_Omega0_gamma :: real
  ip_Omega0_de :: real
  ip_w :: coffe_interpolation
  ip_wint :: coffe_interpolation
  ip_xint :: coffe_interpolation

section \<open>The growth equation and its Jacobian\<close>

text \<open>
  \<^verbatim>\<open>growth_rate_ode(a, y, f, params)\<close> writes \<open>f[0]\<close>, \<open>f[1]\<close> and returns
  \<^verbatim>\<open>GSL_SUCCESS\<close>; the model returns the pair \<open>(f[0], f[1])\<close>. The products and
  quotients associate to the left as in C.
\<close>

definition growth_rate_ode :: "real \<Rightarrow> real \<times> real \<Rightarrow> integration_params \<Rightarrow> real \<times> real" where
  "growth_rate_ode a y par =
     (let z = 1 / a - 1;
          w = interp_spline (ip_w par) z;
          x = interp_spline (ip_xint par) z
      in (snd y,
          (- 3) / 2 * (1 - w / (1 + x)) * snd y / a
          + 3 / 2 * x / (1 + x) * fst y / a\<^sup>2))"

text \<open>
  \<^verbatim>\<open>growth_rate_jac(a, y, dfdy, dfdt, params)\<close> fills the row-major 2x2 matrix
  \<open>dfdy\<close> and the vector \<open>dfdt\<close>.
\<close>

record jacobian_out =
  dfdy00 :: real
  dfdy01 :: real
  dfdy10 :: real
  dfdy11 :: real
  dfdt0 :: real
  dfdt1 :: real

definition growth_rate_jac :: "real \<Rightarrow> real \<times> real \<Rightarrow> integration_params \<Rightarrow> jacobian_out" where
  "growth_rate_jac a y par =
     (let z = 1 / a - 1;
          w = interp_spline (ip_w par) z;
          x = interp_spline (ip_xint par) z;
          x_der = gsl_spline_eval_deriv (ip_xint par) z
      in \<lparr> dfdy00 = 0,
           dfdy01 = 1,
           dfdy10 = 3 / 2 / a\<^sup>2 * (x / (1 + x)),
           dfdy11 = (- 3) / a / 2 / (1 - w / (1 + x)),
           dfdt0 = 0,
           dfdt1 = 3 * snd y / a\<^sup>2 / 2 / (1 - w / (1 + x))
                   - 3 * fst y / a ^ 3 * (x / (1 + x))
                   - 3 * fst y / 2 / a\<^sup>2 * (x * x_der / (1 + x)\<^sup>2)
                   + 3 * fst y / 2 / a\<^sup>2 * (x_der / (1 + x)) \<rparr>)"

text \<open>The right-hand side as section 4.4 of the specification writes it.\<close>

definition growth_rhs_spec :: "real \<Rightarrow> real \<Rightarrow> real \<Rightarrow> real \<Rightarrow> real \<Rightarrow> real \<times> real" where
  "growth_rhs_spec a w x y0 y1 =
     (y1, - (3 / 2) * (1 - w / (1 + x)) * (y1 / a) + (3 / 2) * (x / (1 + x)) * (y0 / a\<^sup>2))"

text \<open>A constant interpolant, used for concrete inputs.\<close>

definition const_interpolation :: "real \<Rightarrow> coffe_interpolation" where
  "const_interpolation c = \<lparr> spline_eval = (\<lambda>_. c), spline_eval_deriv = (\<lambda>_. 0) \<rparr>"

definition example_ipar :: "real \<Rightarrow> real \<Rightarrow> integration_params" where
  "example_ipar w x =
     \<lparr> ip_Omega0_cdm = 1 / 4, ip_Omega0_baryon = 1 / 4, ip_Omega0_gamma = 0, ip_Omega0_de = 1 / 2,
       ip_w = const_interpolation w, ip_wint = const_interpolation 1,
       ip_xint = const_interpolation x \<rparr>"

section \<open>Library interface\<close>

text \<open>
  \<^verbatim>\<open>struct coffe_parameters_t\<close> is declared in \<^verbatim>\<open>common.h\<close>; the record lists the
  fields that \<^verbatim>\<open>background.c\<close> and \<^verbatim>\<open>functions_nonintegrated\<close> read.
\<close>

record coffe_parameters_t =
  Omega0_cdm :: real
  Omega0_baryon :: real
  Omega0_gamma :: real
  Omega0_de :: real
  background_bins :: int
  interp_method :: int
  magnification_bias1 :: coffe_interpolation
  magnification_bias2 :: coffe_interpolation
  evolution_bias1 :: coffe_interpolation
  evolution_bias2 :: coffe_interpolation
  correlation_sources_len :: int
  corr_terms :: "string list"

text \<open>
  The step-size control object of GSL's \<^verbatim>\<open>gsl_odeiv\<close>. GSL declares
  \<^verbatim>\<open>gsl_odeiv_control_y_new(double eps_abs, double eps_rel)\<close>, which is
  \<^verbatim>\<open>gsl_odeiv_control_standard_new(eps_abs, eps_rel, 1.0, 0.0)\<close>: the first argument is
  the absolute and the second the relative error bound. This is the interface of the
  external library, not code of the repository.
\<close>

record gsl_odeiv_control =
  eps_abs :: real
  eps_rel :: real
  a_y :: real
  a_dydt :: real

definition gsl_odeiv_control_y_new :: "real \<Rightarrow> real \<Rightarrow> gsl_odeiv_control" where
  "gsl_odeiv_control_y_new e_abs e_rel =
     \<lparr> eps_abs = e_abs, eps_rel = e_rel, a_y = 1, a_dydt = 0 \<rparr>"

text \<open>\<^verbatim>\<open>gsl_odeiv_system\<close>: right-hand side, Jacobian, dimension (the parameter pointer is bound).\<close>

record gsl_odeiv_system =
  sys_function :: "real \<Rightarrow> real \<times> real \<Rightarrow> real \<times> real"
  sys_jacobian :: "real \<Rightarrow> real \<times> real \<Rightarrow> jacobian_out"
  sys_dimension :: nat

text \<open>
  What one call \<^verbatim>\<open>gsl_odeiv_evolve_apply(evolve, control, step, &sys, &t, t1, &h, y)\<close> reads
  and writes: the internal state of the \<^verbatim>\<open>evolve\<close> and \<^verbatim>\<open>step\<close> objects (of an
  arbitrary type \<open>'e\<close>), the time \<open>t\<close>, the step size \<open>h\<close> and the state vector \<open>y\<close>.
\<close>

record 'e evolve_state =
  ev_internal :: 'e
  ev_t :: real
  ev_h :: real
  ev_y :: "real \<times> real"

text \<open>
  The functions that \<^verbatim>\<open>background.c\<close> calls and that are not defined in it are parameters
  of the model: \<^verbatim>\<open>common_wfunction\<close> and \<^verbatim>\<open>init_spline\<close> of \<^verbatim>\<open>common.c\<close>, and GSL's
  adaptive quadrature \<^verbatim>\<open>gsl_integration_qag(f, a, b, epsabs, epsrel, limit, key, workspace,
  &result, &error)\<close> (the model keeps \<open>f a b epsabs epsrel\<close> and returns \<open>result\<close>) and ODE
  driver. \<open>odeiv_alloc\<close> is the internal state of the freshly allocated \<^verbatim>\<open>step\<close> and
  \<^verbatim>\<open>evolve\<close> objects. The status that \<^verbatim>\<open>gsl_odeiv_evolve_apply\<close> returns is ignored by
  the caller and is not modelled. \<^verbatim>\<open>coffe_malloc\<close> of \<^verbatim>\<open>common.c\<close> returns memory that
  is not initialised: \<open>malloc_contents k i\<close> is the value found in cell \<open>i\<close> of the \<open>k\<close>-th
  array allocated for the table, before the code writes it.
\<close>

record 'e backend =
  common_wfunction :: "coffe_parameters_t \<Rightarrow> real \<Rightarrow> real"
  init_spline :: "real list \<Rightarrow> real list \<Rightarrow> nat \<Rightarrow> int \<Rightarrow> coffe_interpolation"
  gsl_integration_qag :: "(real \<Rightarrow> real) \<Rightarrow> real \<Rightarrow> real \<Rightarrow> real \<Rightarrow> real \<Rightarrow> real"
  odeiv_alloc :: 'e
  gsl_odeiv_evolve_apply ::
    "gsl_odeiv_control \<Rightarrow> gsl_odeiv_system \<Rightarrow> real \<Rightarrow> 'e evolve_state \<Rightarrow> 'e evolve_state"
  malloc_contents :: "nat \<Rightarrow> nat \<Rightarrow> real"

section \<open>Tabulation of the equation of state and its integrals\<close>

text \<open>\<^verbatim>\<open>integrand_w(z, p)\<close> and \<^verbatim>\<open>integrand_x(a, p)\<close> read only \<open>p->w\<close>, which is passed here.\<close>

definition integrand_w :: "coffe_interpolation \<Rightarrow> real \<Rightarrow> real" where
  "integrand_w w z = (1 + interp_spline w z) / (1 + z)"

definition integrand_x :: "coffe_interpolation \<Rightarrow> real \<Rightarrow> real" where
  "integrand_x w a = interp_spline w (1 / a - 1) / a"

definition prec :: real where
  "prec = 1 / 100000"

definition integral_w :: "'e backend \<Rightarrow> coffe_interpolation \<Rightarrow> real \<Rightarrow> real" where
  "integral_w num w z = exp (3 * gsl_integration_qag num (integrand_w w) 0 z 0 prec)"

definition integral_x :: "'e backend \<Rightarrow> coffe_interpolation \<Rightarrow> real \<Rightarrow> real" where
  "integral_x num w z = gsl_integration_qag num (integrand_x w) (1 / (1 + z)) 1 0 prec"

definition integrand_comoving :: "integration_params \<Rightarrow> real \<Rightarrow> real" where
  "integrand_comoving par z =
     1 / sqrt ((ip_Omega0_cdm par + ip_Omega0_baryon par) * (1 + z) ^ 3
               + ip_Omega0_gamma par * (1 + z) ^ 4
               + ip_Omega0_de par * interp_spline (ip_wint par) z)"

text \<open>The dense grid: \<open>z_max = 100\<close>, \<open>bins = 16384\<close>, indices \<open>0 .. bins\<close>.\<close>

definition z_max :: real where
  "z_max = 100"

definition bins :: nat where
  "bins = 16384"

definition grid_z :: "nat \<Rightarrow> real" where
  "grid_z i = z_max * real i / real bins"

definition z_array :: "real list" where
  "z_array = map grid_z [0..<bins + 1]"

definition w_array :: "'e backend \<Rightarrow> coffe_parameters_t \<Rightarrow> real list" where
  "w_array num par = map (\<lambda>i. common_wfunction num par (grid_z i)) [0..<bins + 1]"

definition wint_array :: "'e backend \<Rightarrow> coffe_interpolation \<Rightarrow> real list" where
  "wint_array num w = map (\<lambda>i. integral_w num w (grid_z i)) [0..<bins + 1]"

text \<open>The third loop takes the branch \<open>i \<noteq> 0\<close> first and stores \<open>0\<close> as \<open>z_array[0]\<close>.\<close>

definition z_array_x :: "real list" where
  "z_array_x = map (\<lambda>i. if i \<noteq> 0 then grid_z i else 0) [0..<bins + 1]"

definition xint_array :: "'e backend \<Rightarrow> coffe_parameters_t \<Rightarrow> coffe_interpolation \<Rightarrow> real list" where
  "xint_array num par w =
     map (\<lambda>i. if i \<noteq> 0
               then (Omega0_cdm par + Omega0_baryon par) / (1 - (Omega0_cdm par + Omega0_baryon par))
                    * exp (- 3 * integral_x num w (grid_z i))
               else (Omega0_cdm par + Omega0_baryon par) / (1 - (Omega0_cdm par + Omega0_baryon par)))
         [0..<bins + 1]"

text \<open>The block of \<^verbatim>\<open>coffe_background_init\<close> that fills \<^verbatim>\<open>ipar\<close>.\<close>

definition tabulate :: "'e backend \<Rightarrow> coffe_parameters_t \<Rightarrow> integration_params" where
  "tabulate num par =
     (let w = init_spline num z_array (w_array num par) (bins + 1) 1;
          wint = init_spline num z_array (wint_array num w) (bins + 1) 1;
          xint = init_spline num z_array_x (xint_array num par w) (bins + 1) 1
      in \<lparr> ip_Omega0_cdm = Omega0_cdm par, ip_Omega0_baryon = Omega0_baryon par,
           ip_Omega0_gamma = Omega0_gamma par, ip_Omega0_de = Omega0_de par,
           ip_w = w, ip_wint = wint, ip_xint = xint \<rparr>)"

section \<open>The loop over the output bins\<close>

text \<open>
  \<^verbatim>\<open>struct temp_background\<close>: one array of \<^verbatim>\<open>background_bins\<close> doubles per quantity
  (\<open>D1_prime\<close> is declared and never allocated). The arrays come from \<^verbatim>\<open>coffe_malloc\<close>
  uninitialised, in the order \<open>z\<close>, \<open>a\<close>, \<open>Hz\<close>, \<open>conformal_Hz\<close>, \<open>conformal_Hz_prime\<close>, \<open>D1\<close>,
  \<open>g\<close>, \<open>f\<close>, \<open>G1\<close>, \<open>G2\<close>, \<open>comoving_distance\<close>: their cells hold whatever the memory held,
  until the loop writes cell \<open>i\<close> of each of them in iteration \<open>i\<close>.
\<close>

record temp_background =
  tb_z :: "real list"
  tb_a :: "real list"
  tb_Hz :: "real list"
  tb_conformal_Hz :: "real list"
  tb_conformal_Hz_prime :: "real list"
  tb_D1 :: "real list"
  tb_f :: "real list"
  tb_g :: "real list"
  tb_G1 :: "real list"
  tb_G2 :: "real list"
  tb_comoving_distance :: "real list"

definition alloc_temp_background :: "'e backend \<Rightarrow> nat \<Rightarrow> temp_background" where
  "alloc_temp_background num n =
     \<lparr> tb_z = map (malloc_contents num 0) [0..<n],
       tb_a = map (malloc_contents num 1) [0..<n],
       tb_Hz = map (malloc_contents num 2) [0..<n],
       tb_conformal_Hz = map (malloc_contents num 3) [0..<n],
       tb_conformal_Hz_prime = map (malloc_contents num 4) [0..<n],
       tb_D1 = map (malloc_contents num 5) [0..<n],
       tb_f = map (malloc_contents num 7) [0..<n],
       tb_g = map (malloc_contents num 6) [0..<n],
       tb_G1 = map (malloc_contents num 8) [0..<n],
       tb_G2 = map (malloc_contents num 9) [0..<n],
       tb_comoving_distance = map (malloc_contents num 10) [0..<n] \<rparr>"

text \<open>The quantities of bin \<open>i\<close> that do not depend on the growth solve.\<close>

definition bin_z :: "coffe_parameters_t \<Rightarrow> nat \<Rightarrow> real" where
  "bin_z par i = 15 * real i / real_of_int (background_bins par - 1)"

definition bin_a :: "coffe_parameters_t \<Rightarrow> nat \<Rightarrow> real" where
  "bin_a par i = 1 / (1 + bin_z par i)"

definition bin_Hz :: "coffe_parameters_t \<Rightarrow> integration_params \<Rightarrow> nat \<Rightarrow> real" where
  "bin_Hz par ipar i =
     (let z = bin_z par i; wint = interp_spline (ip_wint ipar) z
      in sqrt ((Omega0_cdm par + Omega0_baryon par) * (1 + z) ^ 3
               + Omega0_gamma par * (1 + z) ^ 4
               + Omega0_de par * wint))"

definition bin_conformal_Hz :: "coffe_parameters_t \<Rightarrow> integration_params \<Rightarrow> nat \<Rightarrow> real" where
  "bin_conformal_Hz par ipar i = bin_a par i * bin_Hz par ipar i"

definition bin_conformal_Hz_prime :: "coffe_parameters_t \<Rightarrow> integration_params \<Rightarrow> nat \<Rightarrow> real" where
  "bin_conformal_Hz_prime par ipar i =
     (let z = bin_z par i;
          w = interp_spline (ip_w ipar) z;
          wint = interp_spline (ip_wint ipar) z
      in - ((1 + z) ^ 3 * (2 * (1 + z) * Omega0_gamma par + (Omega0_cdm par + Omega0_baryon par))
            + (1 + 3 * w) * Omega0_de par * wint)
         / (1 + z)\<^sup>2 / 2)"

definition bin_comoving_distance :: "'e backend \<Rightarrow> coffe_parameters_t \<Rightarrow> integration_params \<Rightarrow> nat \<Rightarrow> real" where
  "bin_comoving_distance num par ipar i =
     gsl_integration_qag num (integrand_comoving ipar) 0 (bin_z par i) 0 prec"

text \<open>
  The relativistic terms of one source; \<open>s\<close> is its magnification bias and \<open>fevo\<close> its
  evolution bias.
\<close>

definition bin_G :: "'e backend \<Rightarrow> coffe_parameters_t \<Rightarrow> integration_params \<Rightarrow>
    coffe_interpolation \<Rightarrow> coffe_interpolation \<Rightarrow> nat \<Rightarrow> real" where
  "bin_G num par ipar s fevo i =
     (let z = bin_z par i
      in if z > 1 / 10 ^ 10
         then bin_conformal_Hz_prime par ipar i / (bin_conformal_Hz par ipar i)\<^sup>2
              + (2 - 5 * interp_spline s z)
                / (bin_comoving_distance num par ipar i * bin_conformal_Hz par ipar i)
              + 5 * interp_spline s z
              - interp_spline fevo z
         else 0)"

text \<open>The ODE system, the stepper control and the inner \<^verbatim>\<open>while\<close> loop of one bin.\<close>

definition growth_sys :: "integration_params \<Rightarrow> gsl_odeiv_system" where
  "growth_sys ipar =
     \<lparr> sys_function = (\<lambda>a y. growth_rate_ode a y ipar),
       sys_jacobian = (\<lambda>a y. growth_rate_jac a y ipar),
       sys_dimension = 2 \<rparr>"

definition control :: gsl_odeiv_control where
  "control = gsl_odeiv_control_y_new (1 / 10 ^ 6) 0"

partial_function (option) growth_while ::
    "('e evolve_state \<Rightarrow> 'e evolve_state) \<Rightarrow> real \<Rightarrow> 'e evolve_state \<Rightarrow> 'e evolve_state option" where
  "growth_while step a_target s =
     (if ev_t s < a_target then growth_while step a_target (step s) else Some s)"

text \<open>
  The solve of one bin: \<open>a_initial\<close> and \<open>initial_values\<close> are reset, the internal state
  \<open>e\<close> of the stepper and the step size \<open>h\<close> are the ones the caller holds.
\<close>

definition solve_bin :: "'e backend \<Rightarrow> integration_params \<Rightarrow> real \<Rightarrow> 'e \<Rightarrow> real \<Rightarrow> 'e evolve_state option" where
  "solve_bin num ipar a_target e h =
     growth_while (gsl_odeiv_evolve_apply num control (growth_sys ipar) a_target) a_target
       \<lparr> ev_internal = e, ev_t = 5 / 100, ev_h = h, ev_y = (5 / 100, 1) \<rparr>"

record 'e loop_state =
  lp_evolve :: 'e
  lp_h :: real
  lp_tb :: temp_background

definition bin_body :: "'e backend \<Rightarrow> coffe_parameters_t \<Rightarrow> integration_params \<Rightarrow> nat \<Rightarrow>
    'e loop_state \<Rightarrow> 'e loop_state option" where
  "bin_body num par ipar i s =
     (case solve_bin num ipar (bin_a par i) (lp_evolve s) (lp_h s) of
        None \<Rightarrow> None
      | Some ev \<Rightarrow>
          (let tb = lp_tb s;
               z = bin_z par i;
               D1 = fst (ev_y ev)
           in Some \<lparr> lp_evolve = ev_internal ev,
                     lp_h = ev_h ev,
                     lp_tb = \<lparr> tb_z = (tb_z tb)[i := z],
                               tb_a = (tb_a tb)[i := bin_a par i],
                               tb_Hz = (tb_Hz tb)[i := bin_Hz par ipar i],
                               tb_conformal_Hz = (tb_conformal_Hz tb)[i := bin_conformal_Hz par ipar i],
                               tb_conformal_Hz_prime =
                                 (tb_conformal_Hz_prime tb)[i := bin_conformal_Hz_prime par ipar i],
                               tb_D1 = (tb_D1 tb)[i := D1],
                               tb_f = (tb_f tb)[i := snd (ev_y ev) * bin_a par i / D1],
                               tb_g = (tb_g tb)[i := (1 + z) * D1],
                               tb_G1 = (tb_G1 tb)[i := bin_G num par ipar (magnification_bias1 par)
                                                         (evolution_bias1 par) i],
                               tb_G2 = (tb_G2 tb)[i := bin_G num par ipar (magnification_bias2 par)
                                                         (evolution_bias2 par) i],
                               tb_comoving_distance =
                                 (tb_comoving_distance tb)[i := bin_comoving_distance num par ipar i] \<rparr> \<rparr>))"

text \<open>The state before the first bin: fresh stepper, \<open>h = 1E-6\<close>.\<close>

definition loop_init :: "'e backend \<Rightarrow> coffe_parameters_t \<Rightarrow> 'e loop_state" where
  "loop_init num par =
     \<lparr> lp_evolve = odeiv_alloc num, lp_h = 1 / 10 ^ 6,
       lp_tb = alloc_temp_background num (nat (background_bins par)) \<rparr>"

text \<open>The state after the iterations \<open>0, \<dots>, n - 1\<close> of the \<^verbatim>\<open>for\<close> loop.\<close>

definition bins_loop :: "'e backend \<Rightarrow> coffe_parameters_t \<Rightarrow> integration_params \<Rightarrow> nat \<Rightarrow>
    'e loop_state option" where
  "bins_loop num par ipar n =
     fold (\<lambda>i s. Option.bind s (bin_body num par ipar i)) [0..<n] (Some (loop_init num par))"

definition fill_table :: "'e backend \<Rightarrow> coffe_parameters_t \<Rightarrow> integration_params \<Rightarrow> temp_background option" where
  "fill_table num par ipar =
     map_option lp_tb (bins_loop num par ipar (nat (background_bins par)))"

section \<open>Spline assembly and release\<close>

record coffe_background_t =
  bg_z_as_chi :: coffe_interpolation
  bg_a :: coffe_interpolation
  bg_Hz :: coffe_interpolation
  bg_conformal_Hz :: coffe_interpolation
  bg_conformal_Hz_prime :: coffe_interpolation
  bg_D1 :: coffe_interpolation
  bg_g :: coffe_interpolation
  bg_f :: coffe_interpolation
  bg_G1 :: coffe_interpolation
  bg_G2 :: coffe_interpolation
  bg_comoving_distance :: coffe_interpolation





section \<open>The final test of \<^verbatim>\<open>functions_nonintegrated\<close>\<close>

text \<open>
  \<^verbatim>\<open>functions_nonintegrated\<close> tests its accumulated sum with \<^verbatim>\<open>gsl_finite\<close>, so this part
  of the model needs the non-finite doubles: a double is a real number, an infinity or a
  NaN. The arithmetic is IEEE's on the special values and exact on the real numbers
  (no rounding, no overflow, no signed zero: a non-zero number divided by zero gives the
  infinity of the sign of the numerator).
\<close>

datatype double = Finite real | PlusInfinity | MinusInfinity | NaN

definition gsl_finite :: "double \<Rightarrow> bool" where
  "gsl_finite d = (case d of Finite _ \<Rightarrow> True | _ \<Rightarrow> False)"

fun dneg :: "double \<Rightarrow> double" where
  "dneg (Finite x) = Finite (- x)"
| "dneg PlusInfinity = MinusInfinity"
| "dneg MinusInfinity = PlusInfinity"
| "dneg NaN = NaN"

fun dadd :: "double \<Rightarrow> double \<Rightarrow> double" where
  "dadd NaN _ = NaN"
| "dadd _ NaN = NaN"
| "dadd (Finite x) (Finite y) = Finite (x + y)"
| "dadd PlusInfinity MinusInfinity = NaN"
| "dadd MinusInfinity PlusInfinity = NaN"
| "dadd PlusInfinity _ = PlusInfinity"
| "dadd MinusInfinity _ = MinusInfinity"
| "dadd _ PlusInfinity = PlusInfinity"
| "dadd _ MinusInfinity = MinusInfinity"

definition dsub :: "double \<Rightarrow> double \<Rightarrow> double" where
  "dsub x y = dadd x (dneg y)"

text \<open>The sign of a double that is not a NaN: \<open>1\<close>, \<open>0\<close> or \<open>- 1\<close>.\<close>

fun dsgn :: "double \<Rightarrow> real" where
  "dsgn (Finite x) = sgn x"
| "dsgn PlusInfinity = 1"
| "dsgn MinusInfinity = - 1"
| "dsgn NaN = 0"

definition signed_infinity :: "real \<Rightarrow> double" where
  "signed_infinity s = (if s = 0 then NaN else if 0 < s then PlusInfinity else MinusInfinity)"

fun dmul :: "double \<Rightarrow> double \<Rightarrow> double" where
  "dmul NaN _ = NaN"
| "dmul _ NaN = NaN"
| "dmul (Finite x) (Finite y) = Finite (x * y)"
| "dmul x y = signed_infinity (dsgn x * dsgn y)"

fun ddiv :: "double \<Rightarrow> double \<Rightarrow> double" where
  "ddiv NaN _ = NaN"
| "ddiv _ NaN = NaN"
| "ddiv (Finite x) (Finite y) = (if y = 0 then signed_infinity (sgn x) else Finite (x / y))"
| "ddiv (Finite x) _ = Finite 0"
| "ddiv x (Finite y) = signed_infinity (dsgn x * (if y < 0 then - 1 else 1))"
| "ddiv _ _ = NaN"

text \<open>How the call ends: \<^verbatim>\<open>return v\<close>, or the message on \<^verbatim>\<open>stderr\<close> (the name of the
  function and the printed values, in order) followed by \<^verbatim>\<open>exit(EXIT_FAILURE)\<close>.\<close>

datatype outcome = Returned double | Aborted string "(string \<times> double) list"

text \<open>
  The parameters of this part: \<open>interp\<close> is \<^verbatim>\<open>interp_spline\<close> on doubles (its result may
  be non-finite), and \<open>contribution\<close> gives, for a code of \<^verbatim>\<open>corr_terms\<close>, the value that
  the branch of the \<^verbatim>\<open>if\<close>/\<^verbatim>\<open>else if\<close> chain taken for this code adds to \<open>result\<close>
  (lines 68 to 528: closed formulas over the background and the integrals), and \<open>None\<close>
  for a code that no branch matches. \<open>'i\<close> is the type of \<^verbatim>\<open>integral[]\<close>.
  \<^verbatim>\<open>len\<close> is an \<^verbatim>\<open>int\<close>; \<open>n * (n + 1)\<close> is never negative, so C's division is \<open>div\<close>.
  The source reads \<^verbatim>\<open>corr_terms[i]\<close> for every \<open>i < len\<close> and relies on the array being
  that long.
\<close>

record 'i nonintegrated_env =
  interp :: "coffe_interpolation \<Rightarrow> double \<Rightarrow> double"
  contribution :: "coffe_parameters_t \<Rightarrow> coffe_background_t \<Rightarrow> 'i \<Rightarrow> double \<Rightarrow> double \<Rightarrow> double
                   \<Rightarrow> string \<Rightarrow> double option"

definition accumulated_sum :: "'i nonintegrated_env \<Rightarrow> coffe_parameters_t \<Rightarrow> coffe_background_t \<Rightarrow> 'i
    \<Rightarrow> double \<Rightarrow> double \<Rightarrow> double \<Rightarrow> double" where
  "accumulated_sum env par bg integral z_mean mu sep =
     (let len = correlation_sources_len par * (correlation_sources_len par + 1) div 2
      in fold (\<lambda>i result.
                 case contribution env par bg integral z_mean mu sep (corr_terms par ! i) of
                   None \<Rightarrow> result
                 | Some c \<Rightarrow> dadd result c)
              [0..<nat len] (Finite 0))"

definition functions_nonintegrated :: "'i nonintegrated_env \<Rightarrow> coffe_parameters_t \<Rightarrow> coffe_background_t \<Rightarrow> 'i
    \<Rightarrow> double \<Rightarrow> double \<Rightarrow> double \<Rightarrow> outcome" where
  "functions_nonintegrated env par bg integral z_mean mu sep =
     (let chi_mean = interp env (bg_comoving_distance bg) z_mean;
          chi1 = dsub chi_mean (ddiv (dmul sep mu) (Finite 2));
          chi2 = dadd chi_mean (ddiv (dmul sep mu) (Finite 2));
          z1 = interp env (bg_z_as_chi bg) chi1;
          z2 = interp env (bg_z_as_chi bg) chi2;
          result = accumulated_sum env par bg integral z_mean mu sep
      in if gsl_finite result
         then Returned (dmul (dmul result (interp env (bg_D1 bg) z1)) (interp env (bg_D1 bg) z2))
         else Aborted ''functions_nonintegrated''
                [(''mu'', mu), (''z_mean'', z_mean), (''chi_mean'', chi_mean), (''sep'', sep),
                 (''z1'', z1), (''z2'', z2), (''chi1'', chi1), (''chi2'', chi2)])"

section \<open>Auxiliary notions for the statements\<close>

text \<open>All eleven arrays of a table have length \<open>n\<close>.\<close>

definition table_lengths :: "temp_background \<Rightarrow> nat \<Rightarrow> bool" where
  "table_lengths tb n \<longleftrightarrow>
     length (tb_z tb) = n \<and> length (tb_a tb) = n \<and> length (tb_Hz tb) = n
     \<and> length (tb_conformal_Hz tb) = n \<and> length (tb_conformal_Hz_prime tb) = n
     \<and> length (tb_D1 tb) = n \<and> length (tb_f tb) = n \<and> length (tb_g tb) = n
     \<and> length (tb_G1 tb) = n \<and> length (tb_G2 tb) = n \<and> length (tb_comoving_distance tb) = n"

text \<open>Cell \<open>i\<close> of the arrays that do not come from the growth solve holds the value of bin \<open>i\<close>.\<close>

definition cell_ok :: "'e backend \<Rightarrow> coffe_parameters_t \<Rightarrow> integration_params \<Rightarrow> temp_background
    \<Rightarrow> nat \<Rightarrow> bool" where
  "cell_ok num par ipar tb i \<longleftrightarrow>
     tb_z tb ! i = bin_z par i
     \<and> tb_a tb ! i = bin_a par i
     \<and> tb_Hz tb ! i = bin_Hz par ipar i
     \<and> tb_conformal_Hz tb ! i = bin_conformal_Hz par ipar i
     \<and> tb_conformal_Hz_prime tb ! i = bin_conformal_Hz_prime par ipar i
     \<and> tb_G1 tb ! i = bin_G num par ipar (magnification_bias1 par) (evolution_bias1 par) i
     \<and> tb_G2 tb ! i = bin_G num par ipar (magnification_bias2 par) (evolution_bias2 par) i
     \<and> tb_comoving_distance tb ! i = bin_comoving_distance num par ipar i
     \<and> tb_g tb ! i = (1 + bin_z par i) * tb_D1 tb ! i"

text \<open>
  The growth solve of bin \<open>i\<close> as the loop performs it: from the stepper state and the step
  size that the iterations \<open>0, \<dots>, i - 1\<close> have left.
\<close>

definition bin_solve :: "'e backend \<Rightarrow> coffe_parameters_t \<Rightarrow> integration_params \<Rightarrow> nat
    \<Rightarrow> 'e evolve_state option" where
  "bin_solve num par ipar i =
     (case bins_loop num par ipar i of
        None \<Rightarrow> None
      | Some s \<Rightarrow> solve_bin num ipar (bin_a par i) (lp_evolve s) (lp_h s))"

text \<open>
  The standalone solve of bin \<open>i\<close>: fresh stepper, initial step \<open>1E-6\<close>, from the fixed
  initial condition to the scale factor of the bin.
\<close>

definition standalone_solve :: "'e backend \<Rightarrow> coffe_parameters_t \<Rightarrow> integration_params \<Rightarrow> nat
    \<Rightarrow> 'e evolve_state option" where
  "standalone_solve num par ipar i =
     solve_bin num ipar (bin_a par i) (odeiv_alloc num) (1 / 10 ^ 6)"

text \<open>
  The auxiliary integral \<open>xint\<close> as section 4.3 of the specification defines it, over an
  integration operator \<open>I f a b\<close> that stands for the integral of \<open>f\<close> from \<open>a\<close> to \<open>b\<close>.
\<close>

definition xint_spec :: "((real \<Rightarrow> real) \<Rightarrow> real \<Rightarrow> real \<Rightarrow> real) \<Rightarrow> real \<Rightarrow> (real \<Rightarrow> real) \<Rightarrow> real \<Rightarrow> real" where
  "xint_spec I Omega_m w z =
     (if z = 0 then Omega_m / (1 - Omega_m)
      else Omega_m / (1 - Omega_m) * exp (- 3 * I (\<lambda>a'. w (1 / a' - 1) / a') (1 / (1 + z)) 1))"

section \<open>A sample backend\<close>

text \<open>
  Simple numerical methods with the interface of the library functions, for concrete
  runs of the model: zero-order hold on a uniform grid for \<^verbatim>\<open>init_spline\<close>, the
  left-endpoint rule for the quadrature, and for the ODE driver an explicit Euler step of
  size \<open>min h (t1 - t)\<close> that proposes \<open>grow\<close> times the step it took as the next step size.
  The equation of state is the constant \<open>w0\<close>. Freshly allocated cells hold negative
  numbers.
\<close>

definition hold_spline :: "real list \<Rightarrow> real list \<Rightarrow> nat \<Rightarrow> int \<Rightarrow> coffe_interpolation" where
  "hold_spline xs ys n m =
     \<lparr> spline_eval = (\<lambda>x. ys ! min (n - 1) (nat \<lfloor>(x - xs ! 0) / (xs ! 1 - xs ! 0)\<rfloor>)),
       spline_eval_deriv = (\<lambda>_. 0) \<rparr>"

definition left_endpoint_rule :: "(real \<Rightarrow> real) \<Rightarrow> real \<Rightarrow> real \<Rightarrow> real \<Rightarrow> real \<Rightarrow> real" where
  "left_endpoint_rule f a b epsabs epsrel = (b - a) * f a"

definition euler_apply :: "real \<Rightarrow> gsl_odeiv_control \<Rightarrow> gsl_odeiv_system \<Rightarrow> real
    \<Rightarrow> unit evolve_state \<Rightarrow> unit evolve_state" where
  "euler_apply grow c sys t1 s =
     (let h0 = min (ev_h s) (t1 - ev_t s);
          d = sys_function sys (ev_t s) (ev_y s)
      in \<lparr> ev_internal = (), ev_t = ev_t s + h0, ev_h = grow * h0,
           ev_y = (fst (ev_y s) + h0 * fst d, snd (ev_y s) + h0 * snd d) \<rparr>)"

definition sample_backend :: "real \<Rightarrow> real \<Rightarrow> unit backend" where
  "sample_backend w0 grow =
     \<lparr> common_wfunction = (\<lambda>par z. w0),
       init_spline = hold_spline,
       gsl_integration_qag = left_endpoint_rule,
       odeiv_alloc = (),
       gsl_odeiv_evolve_apply = euler_apply grow,
       malloc_contents = (\<lambda>k i. - 1 - real (k + i)) \<rparr>"

definition sample_par :: "real \<Rightarrow> real \<Rightarrow> real \<Rightarrow> real \<Rightarrow> int \<Rightarrow> coffe_parameters_t" where
  "sample_par cdm baryon gamma de n =
     \<lparr> Omega0_cdm = cdm, Omega0_baryon = baryon, Omega0_gamma = gamma, Omega0_de = de,
       background_bins = n, interp_method = 1,
       magnification_bias1 = const_interpolation 0, magnification_bias2 = const_interpolation 0,
       evolution_bias1 = const_interpolation 0, evolution_bias2 = const_interpolation 0,
       correlation_sources_len = 1, corr_terms = [''00''] \<rparr>"

definition sample_bg :: coffe_background_t where
  "sample_bg =
     \<lparr> bg_z_as_chi = const_interpolation 0, bg_a = const_interpolation 0,
       bg_Hz = const_interpolation 0, bg_conformal_Hz = const_interpolation 0,
       bg_conformal_Hz_prime = const_interpolation 0, bg_D1 = const_interpolation 1,
       bg_g = const_interpolation 0, bg_f = const_interpolation 0,
       bg_G1 = const_interpolation 0, bg_G2 = const_interpolation 0,
       bg_comoving_distance = const_interpolation 0 \<rparr>"


text \<open>A sample environment for \<open>functions_nonintegrated\<close>: the code \<open>00\<close> contributes \<open>c\<close>.\<close>

definition sample_env :: "double \<Rightarrow> unit nonintegrated_env" where
  "sample_env c =
     \<lparr> interp = (\<lambda>s d. case d of Finite x \<Rightarrow> Finite (spline_eval s x) | _ \<Rightarrow> NaN),
       contribution = (\<lambda>par bg integral z_mean mu sep code.
                         if code = ''00'' then Some c else None) \<rparr>"

text \<open>Two bins, dark energy only.\<close>

definition de_sitter :: coffe_parameters_t where
  "de_sitter = sample_par 0 0 0 1 2"

text \<open>A phantom equation of state, \<open>w = - 2\<close>, and a matter plus dark energy universe with 151 bins.\<close>

definition phantom_backend :: "unit backend" where
  "phantom_backend = sample_backend (- 2) 2"

definition lcdm_151 :: coffe_parameters_t where
  "lcdm_151 = sample_par (1 / 4) (1 / 20) 0 (7 / 10) 151"

section \<open>Theorems\<close>

text \<open>
  C1. For every scale factor \<open>a > 0\<close> and every state \<open>(y0, y1)\<close>, the right-hand side
  computed by \<open>growth_rate_ode\<close> is, with \<open>z = 1/a - 1\<close>, \<open>w = w(z)\<close> and \<open>x = xint(z)\<close>,
  \<open>dy0/da = y1\<close> and \<open>dy1/da = -(3/2)(1 - w/(1+x)) y1/a + (3/2)(x/(1+x)) y0/a\<^sup>2\<close>.
\<close>

theorem growth_rate_ode_matches_spec:
  assumes "0 < a"
  shows "growth_rate_ode a (y0, y1) par =
           growth_rhs_spec a (interp_spline (ip_w par) (1 / a - 1))
             (interp_spline (ip_xint par) (1 / a - 1)) y0 y1"
  by (simp add: growth_rate_ode_def growth_rhs_spec_def Let_def)

theorem growth_rate_ode_matches_spec_witness:
  "growth_rate_ode 1 (0, 1) (example_ipar (- 1) 1) = growth_rhs_spec 1 (- 1) 1 0 1
   \<and> growth_rate_ode 1 (0, 1) (example_ipar (- 1) 1) = (1, - 9 / 4)"
  using growth_rate_ode_matches_spec [of 1 0 1 "example_ipar (- 1) 1"]
  by (simp add: growth_rhs_spec_def example_ipar_def const_interpolation_def interp_spline_def)

subsection \<open>The Jacobian\<close>

lemma linear_has_real_derivative:
  "((\<lambda>t::real. c * t + d) has_real_derivative c) (at t0)"
  by (auto intro!: derivative_eq_intros)

lemma growth_rate_ode_partial_y1:
  "((\<lambda>y1. snd (growth_rate_ode a (y0, y1) par)) has_real_derivative
      (- (3 / 2) * (1 - interp_spline (ip_w par) (1 / a - 1) / (1 + interp_spline (ip_xint par) (1 / a - 1))) / a)) (at y1)"
proof -
  define w where "w = interp_spline (ip_w par) (1 / a - 1)"
  define x where "x = interp_spline (ip_xint par) (1 / a - 1)"
  have "(\<lambda>y1. snd (growth_rate_ode a (y0, y1) par))
        = (\<lambda>y1. (- (3 / 2) * (1 - w / (1 + x)) / a) * y1 + 3 / 2 * x / (1 + x) * y0 / a\<^sup>2)"
    by (simp add: growth_rate_ode_def Let_def w_def x_def fun_eq_iff)
  then show ?thesis
    using linear_has_real_derivative [of "- (3 / 2) * (1 - w / (1 + x)) / a" "3 / 2 * x / (1 + x) * y0 / a\<^sup>2" y1]
    by (simp add: w_def x_def)
qed

lemma growth_rate_ode_partial_y0:
  "((\<lambda>y0. snd (growth_rate_ode a (y0, y1) par)) has_real_derivative
      dfdy10 (growth_rate_jac a (y0, y1) par)) (at y0)"
proof -
  define w where "w = interp_spline (ip_w par) (1 / a - 1)"
  define x where "x = interp_spline (ip_xint par) (1 / a - 1)"
  have "(\<lambda>y0. snd (growth_rate_ode a (y0, y1) par))
        = (\<lambda>y0. (3 / 2 / a\<^sup>2 * (x / (1 + x))) * y0 + (- 3) / 2 * (1 - w / (1 + x)) * y1 / a)"
    by (simp add: growth_rate_ode_def Let_def w_def x_def fun_eq_iff)
  then show ?thesis
    using linear_has_real_derivative [of "3 / 2 / a\<^sup>2 * (x / (1 + x))" "(- 3) / 2 * (1 - w / (1 + x)) * y1 / a" y0]
    by (simp add: growth_rate_jac_def Let_def w_def x_def)
qed

lemma growth_rate_ode_partial_fst:
  "((\<lambda>y0. fst (growth_rate_ode a (y0, y1) par)) has_real_derivative
      dfdy00 (growth_rate_jac a (y0, y1) par)) (at y0)"
  "((\<lambda>y1. fst (growth_rate_ode a (y0, y1) par)) has_real_derivative
      dfdy01 (growth_rate_jac a (y0, y1) par)) (at y1)"
  by (simp_all add: growth_rate_ode_def growth_rate_jac_def Let_def)

text \<open>
  C2. The claim: the matrix that \<open>growth_rate_jac\<close> supplies is the matrix of the partial
  derivatives of the right-hand side; its (1,1) entry is \<open>- (3/2) (1 - w/(1+x)) / a\<close>.
  The code divides by \<open>1 - w/(1+x)\<close> where the derivative multiplies by it. At \<open>a = 1\<close>,
  \<open>y = (0, 1)\<close>, \<open>w = - 1\<close>, \<open>x = 1\<close> the entry is \<open>- 1\<close>, and the partial derivative of
  \<open>dy1/da\<close> with respect to \<open>y1\<close> is \<open>- 9/4\<close>.
\<close>

theorem growth_rate_jac_dfdy11_differs:
  "dfdy11 (growth_rate_jac 1 (0, 1) (example_ipar (- 1) 1)) = - 1
   \<and> ((\<lambda>y1. snd (growth_rate_ode 1 (0, y1) (example_ipar (- 1) 1))) has_real_derivative (- 9 / 4)) (at 1)
   \<and> \<not> ((\<lambda>y1. snd (growth_rate_ode 1 (0, y1) (example_ipar (- 1) 1))) has_real_derivative
           dfdy11 (growth_rate_jac 1 (0, 1) (example_ipar (- 1) 1))) (at 1)"
proof -
  let ?par = "example_ipar (- 1) 1"
  have j: "dfdy11 (growth_rate_jac 1 (0, 1) ?par) = - 1"
    by (simp add: growth_rate_jac_def example_ipar_def const_interpolation_def interp_spline_def
        gsl_spline_eval_deriv_def)
  have d: "((\<lambda>y1. snd (growth_rate_ode 1 (0, y1) ?par)) has_real_derivative (- 9 / 4)) (at 1)"
    using growth_rate_ode_partial_y1 [of 1 0 ?par 1]
    by (simp add: example_ipar_def const_interpolation_def interp_spline_def)
  have n: "\<not> ((\<lambda>y1. snd (growth_rate_ode 1 (0, y1) ?par)) has_real_derivative (- 1)) (at 1)"
  proof
    assume "((\<lambda>y1. snd (growth_rate_ode 1 (0, y1) ?par)) has_real_derivative (- 1)) (at 1)"
    from DERIV_unique [OF this d] show False by simp
  qed
  from j d n show ?thesis by simp
qed


subsection \<open>The step-size control\<close>

text \<open>
  C4, as the code has it: the control object is made by
  \<^verbatim>\<open>gsl_odeiv_control_y_new(1E-6, 0.0)\<close>, whose first argument is the absolute and whose
  second argument is the relative error bound: absolute tolerance \<open>1E-6\<close>, relative
  tolerance \<open>0\<close>.
\<close>

theorem control_tolerances:
  "control = gsl_odeiv_control_y_new (1 / 10 ^ 6) 0
   \<and> eps_abs control = 1 / 10 ^ 6 \<and> eps_rel control = 0"
  by (simp add: control_def gsl_odeiv_control_y_new_def)

text \<open>C4 as stated (relative tolerance \<open>1E-6\<close>, absolute tolerance \<open>0\<close>) does not hold.\<close>

theorem control_not_relative:
  "\<not> (eps_rel control = 1 / 10 ^ 6 \<and> eps_abs control = 0)"
  by (simp add: control_def gsl_odeiv_control_y_new_def)

subsection \<open>The loop over the bins\<close>

lemma bins_loop_0: "bins_loop num par ipar 0 = Some (loop_init num par)"
  by (simp add: bins_loop_def)

lemma bins_loop_Suc:
  "bins_loop num par ipar (Suc n) = Option.bind (bins_loop num par ipar n) (bin_body num par ipar n)"
  by (simp add: bins_loop_def)

lemma bins_loop_SucE:
  assumes "bins_loop num par ipar (Suc n) = Some s'"
  obtains s where "bins_loop num par ipar n = Some s" and "bin_body num par ipar n s = Some s'"
  using assms by (auto simp: bins_loop_Suc bind_eq_Some_conv)

lemma bin_bodyE:
  assumes "bin_body num par ipar i s = Some s'"
  obtains ev where "solve_bin num ipar (bin_a par i) (lp_evolve s) (lp_h s) = Some ev"
    and "lp_evolve s' = ev_internal ev" and "lp_h s' = ev_h ev"
    and "tb_z (lp_tb s') = (tb_z (lp_tb s))[i := bin_z par i]"
    and "tb_a (lp_tb s') = (tb_a (lp_tb s))[i := bin_a par i]"
    and "tb_Hz (lp_tb s') = (tb_Hz (lp_tb s))[i := bin_Hz par ipar i]"
    and "tb_conformal_Hz (lp_tb s') = (tb_conformal_Hz (lp_tb s))[i := bin_conformal_Hz par ipar i]"
    and "tb_conformal_Hz_prime (lp_tb s') =
           (tb_conformal_Hz_prime (lp_tb s))[i := bin_conformal_Hz_prime par ipar i]"
    and "tb_D1 (lp_tb s') = (tb_D1 (lp_tb s))[i := fst (ev_y ev)]"
    and "tb_f (lp_tb s') = (tb_f (lp_tb s))[i := snd (ev_y ev) * bin_a par i / fst (ev_y ev)]"
    and "tb_g (lp_tb s') = (tb_g (lp_tb s))[i := (1 + bin_z par i) * fst (ev_y ev)]"
    and "tb_G1 (lp_tb s') = (tb_G1 (lp_tb s))[i := bin_G num par ipar (magnification_bias1 par) (evolution_bias1 par) i]"
    and "tb_G2 (lp_tb s') = (tb_G2 (lp_tb s))[i := bin_G num par ipar (magnification_bias2 par) (evolution_bias2 par) i]"
    and "tb_comoving_distance (lp_tb s') =
           (tb_comoving_distance (lp_tb s))[i := bin_comoving_distance num par ipar i]"
proof (cases "solve_bin num ipar (bin_a par i) (lp_evolve s) (lp_h s)")
  case None
  with assms show ?thesis by (simp add: bin_body_def)
next
  case (Some ev)
  with assms have "s' = \<lparr> lp_evolve = ev_internal ev,
                     lp_h = ev_h ev,
                     lp_tb = \<lparr> tb_z = (tb_z (lp_tb s))[i := bin_z par i],
                               tb_a = (tb_a (lp_tb s))[i := bin_a par i],
                               tb_Hz = (tb_Hz (lp_tb s))[i := bin_Hz par ipar i],
                               tb_conformal_Hz = (tb_conformal_Hz (lp_tb s))[i := bin_conformal_Hz par ipar i],
                               tb_conformal_Hz_prime =
                                 (tb_conformal_Hz_prime (lp_tb s))[i := bin_conformal_Hz_prime par ipar i],
                               tb_D1 = (tb_D1 (lp_tb s))[i := fst (ev_y ev)],
                               tb_f = (tb_f (lp_tb s))[i := snd (ev_y ev) * bin_a par i / fst (ev_y ev)],
                               tb_g = (tb_g (lp_tb s))[i := (1 + bin_z par i) * fst (ev_y ev)],
                               tb_G1 = (tb_G1 (lp_tb s))[i := bin_G num par ipar (magnification_bias1 par)
                                                         (evolution_bias1 par) i],
                               tb_G2 = (tb_G2 (lp_tb s))[i := bin_G num par ipar (magnification_bias2 par)
                                                         (evolution_bias2 par) i],
                               tb_comoving_distance =
                                 (tb_comoving_distance (lp_tb s))[i := bin_comoving_distance num par ipar i] \<rparr> \<rparr>"
    by (simp add: bin_body_def Let_def)
  then show ?thesis using Some by (intro that [of ev]) simp_all
qed

lemma bins_loop_lengths:
  "bins_loop num par ipar n = Some s \<Longrightarrow> table_lengths (lp_tb s) (nat (background_bins par))"
proof (induction n arbitrary: s)
  case 0
  then show ?case
    by (auto simp: bins_loop_0 loop_init_def alloc_temp_background_def table_lengths_def
        simp del: upt_Suc)
next
  case (Suc n)
  from Suc.prems obtain s0 where s0: "bins_loop num par ipar n = Some s0"
    and b: "bin_body num par ipar n s0 = Some s" by (rule bins_loop_SucE)
  from Suc.IH [OF s0] have "table_lengths (lp_tb s0) (nat (background_bins par))" .
  with b show ?case
    by (elim bin_bodyE) (simp add: table_lengths_def)
qed

lemma bins_loop_cells:
  "bins_loop num par ipar n = Some s \<Longrightarrow> n \<le> nat (background_bins par) \<Longrightarrow> i < n \<Longrightarrow>
   cell_ok num par ipar (lp_tb s) i"
proof (induction n arbitrary: s)
  case 0
  then show ?case by simp
next
  case (Suc n)
  from Suc.prems(1) obtain s0 where s0: "bins_loop num par ipar n = Some s0"
    and b: "bin_body num par ipar n s0 = Some s" by (rule bins_loop_SucE)
  have len: "table_lengths (lp_tb s0) (nat (background_bins par))"
    by (rule bins_loop_lengths [OF s0])
  from Suc.prems(2) have n: "n < nat (background_bins par)" by simp
  from b show ?case
  proof (rule bin_bodyE)
    fix ev
    assume u: "tb_z (lp_tb s) = (tb_z (lp_tb s0))[n := bin_z par n]"
      "tb_a (lp_tb s) = (tb_a (lp_tb s0))[n := bin_a par n]"
      "tb_Hz (lp_tb s) = (tb_Hz (lp_tb s0))[n := bin_Hz par ipar n]"
      "tb_conformal_Hz (lp_tb s) = (tb_conformal_Hz (lp_tb s0))[n := bin_conformal_Hz par ipar n]"
      "tb_conformal_Hz_prime (lp_tb s) =
         (tb_conformal_Hz_prime (lp_tb s0))[n := bin_conformal_Hz_prime par ipar n]"
      "tb_D1 (lp_tb s) = (tb_D1 (lp_tb s0))[n := fst (ev_y ev)]"
      "tb_g (lp_tb s) = (tb_g (lp_tb s0))[n := (1 + bin_z par n) * fst (ev_y ev)]"
      "tb_G1 (lp_tb s) = (tb_G1 (lp_tb s0))[n := bin_G num par ipar (magnification_bias1 par) (evolution_bias1 par) n]"
      "tb_G2 (lp_tb s) = (tb_G2 (lp_tb s0))[n := bin_G num par ipar (magnification_bias2 par) (evolution_bias2 par) n]"
      "tb_comoving_distance (lp_tb s) =
         (tb_comoving_distance (lp_tb s0))[n := bin_comoving_distance num par ipar n]"
    show ?thesis
    proof (cases "i = n")
      case True
      with len n show ?thesis
        unfolding cell_ok_def u table_lengths_def by simp
    next
      case False
      with Suc.prems have "cell_ok num par ipar (lp_tb s0) i"
        using Suc.IH [OF s0] by simp
      with False show ?thesis
        unfolding cell_ok_def u by simp
    qed
  qed
qed

lemma bins_loop_growth:
  "bins_loop num par ipar n = Some s \<Longrightarrow> n \<le> nat (background_bins par) \<Longrightarrow> i < n \<Longrightarrow>
   \<exists>ev. bin_solve num par ipar i = Some ev
        \<and> tb_D1 (lp_tb s) ! i = fst (ev_y ev)
        \<and> tb_f (lp_tb s) ! i = snd (ev_y ev) * bin_a par i / fst (ev_y ev)"
proof (induction n arbitrary: s)
  case 0
  then show ?case by simp
next
  case (Suc n)
  from Suc.prems(1) obtain s0 where s0: "bins_loop num par ipar n = Some s0"
    and b: "bin_body num par ipar n s0 = Some s" by (rule bins_loop_SucE)
  have len: "table_lengths (lp_tb s0) (nat (background_bins par))"
    by (rule bins_loop_lengths [OF s0])
  show ?case
  proof (cases "i = n")
    case True
    with b len s0 Suc.prems(2) show ?thesis
      by (elim bin_bodyE) (simp add: table_lengths_def bin_solve_def)
  next
    case False
    with Suc.prems obtain ev where "bin_solve num par ipar i = Some ev"
      "tb_D1 (lp_tb s0) ! i = fst (ev_y ev)"
      "tb_f (lp_tb s0) ! i = snd (ev_y ev) * bin_a par i / fst (ev_y ev)"
      using Suc.IH [OF s0] by auto
    with b False show ?thesis
      by (elim bin_bodyE) simp
  qed
qed

subsection \<open>Runs of the sample backend end\<close>

lemma growth_while_done: "\<not> ev_t s < a \<Longrightarrow> growth_while step a s = Some s"
  by (subst growth_while.simps) simp

lemma growth_while_step: "ev_t s < a \<Longrightarrow> growth_while step a s = growth_while step a (step s)"
  by (subst growth_while.simps) simp

lemma euler_terminates:
  assumes g: "1 \<le> grow"
  shows "0 < ev_h s \<Longrightarrow> a - ev_t s \<le> real n * ev_h s \<Longrightarrow>
         \<exists>r. growth_while (euler_apply grow c sys a) a s = Some r \<and> 0 < ev_h r"
proof (induction n arbitrary: s)
  case 0
  then have "\<not> ev_t s < a" by simp
  with 0 show ?case by (simp add: growth_while_done)
next
  case (Suc n)
  show ?case
  proof (cases "ev_t s < a")
    case False
    with Suc.prems show ?thesis by (simp add: growth_while_done)
  next
    case True
    let ?s' = "euler_apply grow c sys a s"
    let ?h0 = "min (ev_h s) (a - ev_t s)"
    have h0: "0 < ?h0" using True Suc.prems(1) by simp
    have t': "ev_t ?s' = ev_t s + ?h0" and h': "ev_h ?s' = grow * ?h0"
      by (simp_all add: euler_apply_def Let_def)
    have hpos: "0 < ev_h ?s'" using h0 g unfolding h' by (simp add: zero_less_mult_iff)
    have "a - ev_t ?s' \<le> real n * ev_h ?s'"
    proof (cases "ev_h s \<le> a - ev_t s")
      case True
      then have m: "?h0 = ev_h s" by simp
      have "a - ev_t ?s' = a - ev_t s - ev_h s" unfolding t' m by simp
      also have "\<dots> \<le> real n * ev_h s" using Suc.prems(2) by (simp add: algebra_simps)
      also have "\<dots> \<le> real n * (grow * ev_h s)"
        using g Suc.prems(1) by (intro mult_left_mono) (simp_all add: mult_le_cancel_right1)
      finally show ?thesis unfolding h' m .
    next
      case False
      then have m: "?h0 = a - ev_t s" by simp
      have "a - ev_t ?s' = 0" unfolding t' m by simp
      moreover have "0 \<le> real n * ev_h ?s'" using hpos by simp
      ultimately show ?thesis by simp
    qed
    from Suc.IH [OF hpos this] show ?thesis using True by (simp add: growth_while_step)
  qed
qed

lemma sample_solve_bin:
  assumes "1 \<le> grow" and "0 < h"
  shows "\<exists>r. solve_bin (sample_backend w0 grow) ipar a e h = Some r \<and> 0 < ev_h r"
proof -
  let ?s = "\<lparr> ev_internal = e, ev_t = 5 / 100, ev_h = h, ev_y = (5 / 100, 1) \<rparr>"
  obtain n :: nat where "(a - 5 / 100) / h \<le> real n" using real_arch_simple by blast
  with assms(2) have "a - ev_t ?s \<le> real n * ev_h ?s" by (simp add: field_simps)
  moreover have "0 < ev_h ?s" using assms(2) by simp
  ultimately show ?thesis
    using euler_terminates [OF assms(1), of ?s a n control "growth_sys ipar"]
    by (simp add: solve_bin_def sample_backend_def)
qed

lemma sample_bins_loop:
  assumes "1 \<le> grow"
  shows "\<exists>s. bins_loop (sample_backend w0 grow) par ipar n = Some s \<and> 0 < lp_h s"
proof (induction n)
  case 0
  show ?case by (simp add: bins_loop_0 loop_init_def)
next
  case (Suc n)
  then obtain s where s: "bins_loop (sample_backend w0 grow) par ipar n = Some s" "0 < lp_h s"
    by blast
  from sample_solve_bin [OF assms s(2)] obtain r where
    r: "solve_bin (sample_backend w0 grow) ipar (bin_a par n) (lp_evolve s) (lp_h s) = Some r" "0 < ev_h r"
    by blast
  then show ?case
    by (simp add: bins_loop_Suc s bin_body_def Let_def)
qed

lemma sample_fill_table:
  assumes "1 \<le> grow"
  shows "\<exists>tb. fill_table (sample_backend w0 grow) par ipar = Some tb"
  using sample_bins_loop [OF assms, of w0 par ipar "nat (background_bins par)"]
  by (auto simp: fill_table_def)

subsection \<open>The dense grid\<close>

lemma grid_z_0: "grid_z 0 = 0"
  by (simp add: grid_z_def)

lemma grid_z_eq_0_iff: "grid_z i = 0 \<longleftrightarrow> i = 0"
  by (simp add: grid_z_def z_max_def bins_def)

lemma grid_z_range: "i \<le> bins \<Longrightarrow> 0 \<le> grid_z i \<and> grid_z i \<le> z_max"
  by (simp add: grid_z_def z_max_def bins_def field_simps)

lemma grid_nth:
  assumes "i \<le> bins"
  shows "z_array ! i = grid_z i"
    and "z_array_x ! i = grid_z i"
    and "w_array num par ! i = common_wfunction num par (grid_z i)"
    and "wint_array num w ! i = integral_w num w (grid_z i)"
    and "xint_array num par w ! i =
           (if i \<noteq> 0
            then (Omega0_cdm par + Omega0_baryon par) / (1 - (Omega0_cdm par + Omega0_baryon par))
                 * exp (- 3 * integral_x num w (grid_z i))
            else (Omega0_cdm par + Omega0_baryon par) / (1 - (Omega0_cdm par + Omega0_baryon par)))"
proof -
  from assms have i: "i < bins + 1" by simp
  then have u: "[0..<bins + 1] ! i = i" and l: "i < length [0..<bins + 1]"
    by (simp_all del: upt_Suc)
  show "z_array ! i = grid_z i"
    unfolding z_array_def using u l by (simp only: nth_map)
  show "z_array_x ! i = grid_z i"
    unfolding z_array_x_def using u l by (simp only: nth_map) (simp add: grid_z_0)
  show "w_array num par ! i = common_wfunction num par (grid_z i)"
    unfolding w_array_def using u l by (simp only: nth_map)
  show "wint_array num w ! i = integral_w num w (grid_z i)"
    unfolding wint_array_def using u l by (simp only: nth_map)
  show "xint_array num par w ! i =
           (if i \<noteq> 0
            then (Omega0_cdm par + Omega0_baryon par) / (1 - (Omega0_cdm par + Omega0_baryon par))
                 * exp (- 3 * integral_x num w (grid_z i))
            else (Omega0_cdm par + Omega0_baryon par) / (1 - (Omega0_cdm par + Omega0_baryon par)))"
    unfolding xint_array_def using u l by (simp only: nth_map)
qed

lemma tabulate_fields:
  "ip_w (tabulate num par) = init_spline num z_array (w_array num par) (bins + 1) 1"
  "ip_wint (tabulate num par) = init_spline num z_array (wint_array num (ip_w (tabulate num par))) (bins + 1) 1"
  "ip_xint (tabulate num par) =
     init_spline num z_array_x (xint_array num par (ip_w (tabulate num par))) (bins + 1) 1"
  "ip_Omega0_cdm (tabulate num par) = Omega0_cdm par"
  "ip_Omega0_baryon (tabulate num par) = Omega0_baryon par"
  "ip_Omega0_gamma (tabulate num par) = Omega0_gamma par"
  "ip_Omega0_de (tabulate num par) = Omega0_de par"
  by (simp_all add: tabulate_def Let_def)

text \<open>
  C5. On the dense grid the tabulated \<open>xint\<close> is the specification's: at the grid point
  \<open>z = 0\<close> (index \<open>0\<close>, the only one) the value is \<open>\<Omega>m / (1 - \<Omega>m)\<close> with
  \<open>\<Omega>m = \<Omega>cdm + \<Omega>baryon\<close>, with no quadrature call, and at every grid point \<open>z > 0\<close> it is
  \<open>\<Omega>m / (1 - \<Omega>m) \<cdot> exp (- 3 \<cdot> I)\<close>, where \<open>I\<close> is the quadrature of \<open>w(a') / a'\<close> from
  \<open>1 / (1 + z)\<close> to \<open>1\<close>; the interpolant \<open>xint\<close> is built from these values.
\<close>

theorem xint_array_matches_spec:
  assumes "i \<le> bins"
  shows "ip_xint (tabulate num par) =
           init_spline num z_array_x (xint_array num par (ip_w (tabulate num par))) (bins + 1) 1
         \<and> z_array_x ! i = grid_z i
         \<and> (grid_z i = 0 \<longleftrightarrow> i = 0)
         \<and> xint_array num par w ! i =
             xint_spec (\<lambda>f a b. gsl_integration_qag num f a b 0 prec)
               (Omega0_cdm par + Omega0_baryon par) (interp_spline w) (grid_z i)
         \<and> xint_array num par w ! 0 =
             (Omega0_cdm par + Omega0_baryon par) / (1 - (Omega0_cdm par + Omega0_baryon par))"
proof -
  have "integrand_x w = (\<lambda>a'. interp_spline w (1 / a' - 1) / a')"
    by (simp add: fun_eq_iff integrand_x_def)
  then have "xint_array num par w ! i =
             xint_spec (\<lambda>f a b. gsl_integration_qag num f a b 0 prec)
               (Omega0_cdm par + Omega0_baryon par) (interp_spline w) (grid_z i)"
    using grid_nth(5) [OF assms, of num par w]
    by (simp add: xint_spec_def grid_z_eq_0_iff integral_x_def)
  moreover have "xint_array num par w ! 0 =
             (Omega0_cdm par + Omega0_baryon par) / (1 - (Omega0_cdm par + Omega0_baryon par))"
    using grid_nth(5) [of 0 num par w] by simp
  ultimately show ?thesis
    using grid_nth(2) [OF assms] by (simp add: tabulate_fields grid_z_eq_0_iff)
qed

theorem xint_array_matches_spec_witness:
  "xint_array (sample_backend (- 1) 2) (sample_par (1 / 4) (1 / 20) 0 (7 / 10) 2)
     (const_interpolation (- 1)) ! 1
   = 3 / 7 * exp (- 3 * ((1 - 1 / (1 + 100 / 16384)) * (- 1 / (1 / (1 + 100 / 16384)))))
   \<and> xint_array (sample_backend (- 1) 2) (sample_par (1 / 4) (1 / 20) 0 (7 / 10) 2)
       (const_interpolation (- 1)) ! 0 = 3 / 7"
  using xint_array_matches_spec [of 1 "sample_backend (- 1) 2"
      "sample_par (1 / 4) (1 / 20) 0 (7 / 10) 2" "const_interpolation (- 1)"]
  by (simp add: bins_def xint_spec_def grid_z_def z_max_def sample_backend_def sample_par_def
      left_endpoint_rule_def const_interpolation_def interp_spline_def)

text \<open>
  C6. If \<open>w(z) = - 1\<close> on the tabulation domain \<open>[0, z_max]\<close>, the integrand
  \<open>(1 + w(z')) / (1 + z')\<close> is zero there, and the tabulated \<open>wint\<close> is \<open>exp (3 \<cdot> 0) = 1\<close> at
  every grid point, for a quadrature that returns \<open>0\<close> on an integrand that is zero on the
  interval of integration (as the exact integral does).
\<close>

theorem wint_cosmological_constant:
  assumes w: "\<forall>z. 0 \<le> z \<and> z \<le> z_max \<longrightarrow> interp_spline w z = - 1"
    and q: "\<forall>f a b. a \<le> b \<and> (\<forall>x. a \<le> x \<and> x \<le> b \<longrightarrow> f x = 0)
              \<longrightarrow> gsl_integration_qag num f a b 0 prec = 0"
    and i: "i \<le> bins"
  shows "(\<forall>z. 0 \<le> z \<and> z \<le> z_max \<longrightarrow> integrand_w w z = 0)
         \<and> gsl_integration_qag num (integrand_w w) 0 (grid_z i) 0 prec = 0
         \<and> wint_array num w ! i = 1
         \<and> z_array ! i = grid_z i
         \<and> ip_wint (tabulate num par) =
             init_spline num z_array (wint_array num (ip_w (tabulate num par))) (bins + 1) 1"
proof -
  have z: "\<forall>z. 0 \<le> z \<and> z \<le> z_max \<longrightarrow> integrand_w w z = 0"
    using w by (simp add: integrand_w_def)
  from grid_z_range [OF i] have r: "0 \<le> grid_z i" "grid_z i \<le> z_max" by simp_all
  have "\<forall>x. 0 \<le> x \<and> x \<le> grid_z i \<longrightarrow> integrand_w w x = 0"
    using z r by auto
  with q r(1) have g: "gsl_integration_qag num (integrand_w w) 0 (grid_z i) 0 prec = 0"
    by blast
  then have "wint_array num w ! i = 1"
    using grid_nth(4) [OF i, of num w] by (simp add: integral_w_def)
  with z g show ?thesis
    using grid_nth(1) [OF i] by (simp add: tabulate_fields(2))
qed

lemma hold_spline_const:
  assumes "\<And>k. k < n \<Longrightarrow> ys ! k = c" and "0 < n"
  shows "interp_spline (hold_spline xs ys n m) x = c"
  using assms by (simp add: interp_spline_def hold_spline_def)

lemma sample_ip_w: "interp_spline (ip_w (tabulate (sample_backend w0 grow) par)) z = w0"
proof -
  have "\<And>k. k < bins + 1 \<Longrightarrow> w_array (sample_backend w0 grow) par ! k = w0"
    using grid_nth(3) [of _ "sample_backend w0 grow" par] by (simp add: sample_backend_def)
  then have "interp_spline (hold_spline z_array (w_array (sample_backend w0 grow) par) (bins + 1) 1) z = w0"
    by (intro hold_spline_const) simp_all
  then show ?thesis
    by (simp add: tabulate_fields) (simp add: sample_backend_def)
qed

lemma left_endpoint_rule_zero:
  "\<forall>f a b. a \<le> b \<and> (\<forall>x. a \<le> x \<and> x \<le> b \<longrightarrow> f x = 0)
      \<longrightarrow> gsl_integration_qag (sample_backend w0 grow) f a b 0 prec = 0"
  by (simp add: sample_backend_def left_endpoint_rule_def)

theorem wint_cosmological_constant_witness:
  "wint_array (sample_backend (- 1) 2)
     (ip_w (tabulate (sample_backend (- 1) 2) (sample_par (1 / 4) (1 / 20) 0 (7 / 10) 2))) ! 16384 = 1"
proof -
  let ?num = "sample_backend (- 1) 2"
  let ?w = "ip_w (tabulate ?num (sample_par (1 / 4) (1 / 20) 0 (7 / 10) 2))"
  have w: "\<forall>z. 0 \<le> z \<and> z \<le> z_max \<longrightarrow> interp_spline ?w z = - 1"
    by (simp add: sample_ip_w)
  have i: "(16384::nat) \<le> bins" by (simp add: bins_def)
  from wint_cosmological_constant [OF w left_endpoint_rule_zero i] show ?thesis by blast
qed

subsection \<open>The recorded table\<close>

lemma fill_tableE:
  assumes "fill_table num par ipar = Some tb"
  obtains s where "bins_loop num par ipar (nat (background_bins par)) = Some s" and "lp_tb s = tb"
  using assms by (auto simp: fill_table_def)

lemma fill_table_cells:
  assumes "fill_table num par ipar = Some tb" and "i < nat (background_bins par)"
  shows "cell_ok num par ipar tb i"
  using assms bins_loop_cells [of num par ipar "nat (background_bins par)" _ i]
  by (auto elim!: fill_tableE)

lemma bin_z_0: "bin_z par 0 = 0"
  by (simp add: bin_z_def)

lemma bin_G_zero: "bin_z par i \<le> 1 / 10 ^ 10 \<Longrightarrow> bin_G num par ipar s fevo i = 0"
  by (simp add: bin_G_def Let_def)

text \<open>
  C7. In every bin whose redshift is at most \<open>1E-10\<close>, and so in the first bin (where
  \<open>z = 0\<close> as soon as there are two bins), the loop stores exactly \<open>0\<close> as \<open>G1\<close> and as
  \<open>G2\<close>, whatever the bias interpolants, the backend, the tabulated integrals and the
  previous contents of the arrays are. The formula with the division by \<open>\<chi>(z) \<cdot> \<H>(z)\<close>
  is what the loop stores in the bins with \<open>z > 1E-10\<close>, and only in those.
\<close>

theorem G_zero_near_origin:
  assumes "fill_table num par ipar = Some tb" and "i < nat (background_bins par)"
  shows "(tb_z tb ! i \<le> 1 / 10 ^ 10 \<longrightarrow> tb_G1 tb ! i = 0 \<and> tb_G2 tb ! i = 0)
         \<and> (i = 0 \<longrightarrow> tb_G1 tb ! i = 0 \<and> tb_G2 tb ! i = 0)
         \<and> (i = 0 \<and> 2 \<le> background_bins par \<longrightarrow> tb_z tb ! i = 0)
         \<and> (1 / 10 ^ 10 < tb_z tb ! i \<longrightarrow>
               tb_G1 tb ! i =
                 tb_conformal_Hz_prime tb ! i / (tb_conformal_Hz tb ! i)\<^sup>2
                 + (2 - 5 * interp_spline (magnification_bias1 par) (tb_z tb ! i))
                   / (tb_comoving_distance tb ! i * tb_conformal_Hz tb ! i)
                 + 5 * interp_spline (magnification_bias1 par) (tb_z tb ! i)
                 - interp_spline (evolution_bias1 par) (tb_z tb ! i)
               \<and> tb_G2 tb ! i =
                 tb_conformal_Hz_prime tb ! i / (tb_conformal_Hz tb ! i)\<^sup>2
                 + (2 - 5 * interp_spline (magnification_bias2 par) (tb_z tb ! i))
                   / (tb_comoving_distance tb ! i * tb_conformal_Hz tb ! i)
                 + 5 * interp_spline (magnification_bias2 par) (tb_z tb ! i)
                 - interp_spline (evolution_bias2 par) (tb_z tb ! i))"
proof -
  from fill_table_cells [OF assms] have c: "tb_z tb ! i = bin_z par i"
    "tb_G1 tb ! i = bin_G num par ipar (magnification_bias1 par) (evolution_bias1 par) i"
    "tb_G2 tb ! i = bin_G num par ipar (magnification_bias2 par) (evolution_bias2 par) i"
    "tb_conformal_Hz tb ! i = bin_conformal_Hz par ipar i"
    "tb_conformal_Hz_prime tb ! i = bin_conformal_Hz_prime par ipar i"
    "tb_comoving_distance tb ! i = bin_comoving_distance num par ipar i"
    by (simp_all add: cell_ok_def)
  have low: "bin_z par i \<le> 1 / 10 ^ 10 \<longrightarrow>
               bin_G num par ipar (magnification_bias1 par) (evolution_bias1 par) i = 0
               \<and> bin_G num par ipar (magnification_bias2 par) (evolution_bias2 par) i = 0"
    by (simp add: bin_G_zero)
  have first: "i = 0 \<longrightarrow> bin_z par i = 0" by (simp add: bin_z_0)
  have high: "1 / 10 ^ 10 < bin_z par i \<longrightarrow>
               bin_G num par ipar s fevo i =
                 bin_conformal_Hz_prime par ipar i / (bin_conformal_Hz par ipar i)\<^sup>2
                 + (2 - 5 * interp_spline s (bin_z par i))
                   / (bin_comoving_distance num par ipar i * bin_conformal_Hz par ipar i)
                 + 5 * interp_spline s (bin_z par i)
                 - interp_spline fevo (bin_z par i)" for s fevo
    by (simp add: bin_G_def Let_def)
  from low first high show ?thesis unfolding c by auto
qed

theorem G_zero_near_origin_witness:
  "\<exists>tb. fill_table (sample_backend (- 1) 2) (sample_par (1 / 4) (1 / 20) 0 (7 / 10) 2)
           (tabulate (sample_backend (- 1) 2) (sample_par (1 / 4) (1 / 20) 0 (7 / 10) 2)) = Some tb
        \<and> tb_G1 (alloc_temp_background (sample_backend (- 1) 2) 2) ! 0 = - 9
        \<and> tb_G2 (alloc_temp_background (sample_backend (- 1) 2) 2) ! 0 = - 10
        \<and> tb_z tb ! 0 = 0 \<and> tb_G1 tb ! 0 = 0 \<and> tb_G2 tb ! 0 = 0
        \<and> tb_z tb ! 1 = 15
        \<and> tb_G1 tb ! 1 =
            tb_conformal_Hz_prime tb ! 1 / (tb_conformal_Hz tb ! 1)\<^sup>2
            + 2 / (tb_comoving_distance tb ! 1 * tb_conformal_Hz tb ! 1)"
proof -
  let ?num = "sample_backend (- 1) 2"
  let ?par = "sample_par (1 / 4) (1 / 20) 0 (7 / 10) 2"
  obtain tb where tb: "fill_table ?num ?par (tabulate ?num ?par) = Some tb"
    using sample_fill_table [of 2 "- 1" ?par "tabulate ?num ?par"] by auto
  have i: "0 < nat (background_bins ?par)" and j: "1 < nat (background_bins ?par)"
    and n: "2 \<le> background_bins ?par"
    by (simp_all add: sample_par_def)
  have z: "tb_z tb ! 1 = 15"
    using fill_table_cells [OF tb j] by (simp add: cell_ok_def bin_z_def sample_par_def)
  have b: "interp_spline (magnification_bias1 ?par) 15 = 0" "interp_spline (evolution_bias1 ?par) 15 = 0"
    by (simp_all add: sample_par_def const_interpolation_def interp_spline_def)
  have g: "tb_G1 (alloc_temp_background ?num 2) ! 0 = - 9"
    "tb_G2 (alloc_temp_background ?num 2) ! 0 = - 10"
    by (simp_all add: alloc_temp_background_def sample_backend_def del: upt_Suc)
  from G_zero_near_origin [OF tb i] G_zero_near_origin [OF tb j] n tb z b g show ?thesis
    by (intro exI [of _ tb]) simp
qed




subsection \<open>The final test of the nonintegrated terms\<close>

lemma sample_accumulated_sum:
  "accumulated_sum (sample_env c) (sample_par cdm b g de n) bg () z_mean mu sep = dadd (Finite 0) c"
  by (simp add: accumulated_sum_def sample_env_def sample_par_def)

text \<open>
  C9. For every input, \<open>functions_nonintegrated\<close> returns the accumulated sum multiplied
  by \<open>D1(z1)\<close> and by \<open>D1(z2)\<close> when the accumulated sum is finite; when it is not finite the
  call ends in the message with \<open>mu\<close>, \<open>z_mean\<close>, \<open>chi_mean\<close>, \<open>sep\<close>, \<open>z1\<close>, \<open>z2\<close>,
  \<open>chi1\<close>, \<open>chi2\<close> and \<^verbatim>\<open>exit(EXIT_FAILURE)\<close>; so whenever it returns, the accumulated
  sum was finite.
\<close>

theorem functions_nonintegrated_finite_or_abort:
  "(gsl_finite (accumulated_sum env par bg integral z_mean mu sep) \<longrightarrow>
      functions_nonintegrated env par bg integral z_mean mu sep =
        Returned (dmul (dmul (accumulated_sum env par bg integral z_mean mu sep)
          (interp env (bg_D1 bg) (interp env (bg_z_as_chi bg)
             (dsub (interp env (bg_comoving_distance bg) z_mean) (ddiv (dmul sep mu) (Finite 2))))))
          (interp env (bg_D1 bg) (interp env (bg_z_as_chi bg)
             (dadd (interp env (bg_comoving_distance bg) z_mean) (ddiv (dmul sep mu) (Finite 2)))))))
   \<and> (\<not> gsl_finite (accumulated_sum env par bg integral z_mean mu sep) \<longrightarrow>
      functions_nonintegrated env par bg integral z_mean mu sep =
        Aborted ''functions_nonintegrated''
          [(''mu'', mu), (''z_mean'', z_mean),
           (''chi_mean'', interp env (bg_comoving_distance bg) z_mean),
           (''sep'', sep),
           (''z1'', interp env (bg_z_as_chi bg)
              (dsub (interp env (bg_comoving_distance bg) z_mean) (ddiv (dmul sep mu) (Finite 2)))),
           (''z2'', interp env (bg_z_as_chi bg)
              (dadd (interp env (bg_comoving_distance bg) z_mean) (ddiv (dmul sep mu) (Finite 2)))),
           (''chi1'', dsub (interp env (bg_comoving_distance bg) z_mean) (ddiv (dmul sep mu) (Finite 2))),
           (''chi2'', dadd (interp env (bg_comoving_distance bg) z_mean) (ddiv (dmul sep mu) (Finite 2)))])
   \<and> (\<forall>v. functions_nonintegrated env par bg integral z_mean mu sep = Returned v \<longrightarrow>
          gsl_finite (accumulated_sum env par bg integral z_mean mu sep))"
  by (simp add: functions_nonintegrated_def Let_def)

theorem functions_nonintegrated_finite_or_abort_witness:
  "functions_nonintegrated (sample_env (Finite 3)) (sample_par (1 / 4) (1 / 20) 0 (7 / 10) 2) sample_bg ()
      (Finite 1) (Finite 0) (Finite 1) = Returned (Finite 3)
   \<and> functions_nonintegrated (sample_env PlusInfinity) (sample_par (1 / 4) (1 / 20) 0 (7 / 10) 2) sample_bg ()
      (Finite 1) (Finite 0) (Finite 1) =
      Aborted ''functions_nonintegrated''
        [(''mu'', Finite 0), (''z_mean'', Finite 1), (''chi_mean'', Finite 0), (''sep'', Finite 1),
         (''z1'', Finite 0), (''z2'', Finite 0), (''chi1'', Finite 0), (''chi2'', Finite 0)]"
  using functions_nonintegrated_finite_or_abort [of "sample_env (Finite 3)"
      "sample_par (1 / 4) (1 / 20) 0 (7 / 10) 2" sample_bg "()" "Finite 1" "Finite 0" "Finite 1"]
    functions_nonintegrated_finite_or_abort [of "sample_env PlusInfinity"
      "sample_par (1 / 4) (1 / 20) 0 (7 / 10) 2" sample_bg "()" "Finite 1" "Finite 0" "Finite 1"]
  by (simp add: sample_accumulated_sum gsl_finite_def)
     (simp add: sample_env_def sample_bg_def const_interpolation_def dsub_def)

subsection \<open>The growth solve of each bin\<close>

lemma sample_ip_xint_zero:
  assumes "Omega0_cdm par + Omega0_baryon par = 0"
  shows "interp_spline (ip_xint (tabulate (sample_backend w0 grow) par)) z = 0"
proof -
  let ?num = "sample_backend w0 grow"
  have "\<And>k. k < bins + 1 \<Longrightarrow> xint_array ?num par (ip_w (tabulate ?num par)) ! k = 0"
    using grid_nth(5) [of _ ?num par "ip_w (tabulate ?num par)"] assms by simp
  then have "interp_spline (hold_spline z_array_x (xint_array ?num par (ip_w (tabulate ?num par))) (bins + 1) 1) z = 0"
    by (intro hold_spline_const) simp_all
  then show ?thesis
    by (simp add: tabulate_fields) (simp add: sample_backend_def)
qed

lemma sample_rhs:
  assumes "Omega0_cdm par + Omega0_baryon par = 0"
  shows "sys_function (growth_sys (tabulate (sample_backend w0 grow) par)) a y
         = (snd y, (- 3) / 2 * (1 - w0) * snd y / a)"
  by (simp add: growth_sys_def growth_rate_ode_def Let_def sample_ip_w sample_ip_xint_zero [OF assms])

lemma de_sitter_rhs:
  "sys_function (growth_sys (tabulate (sample_backend (- 1) 2) de_sitter)) a y = (snd y, - 3 * snd y / a)"
  using sample_rhs [of de_sitter "- 1" 2 a y] by (simp add: de_sitter_def sample_par_def)

lemma sample_backend_driver:
  "gsl_odeiv_evolve_apply (sample_backend w0 grow) = euler_apply grow"
  by (simp add: sample_backend_def)

lemma euler_step_eval:
  "euler_apply grow c sys t1 \<lparr> ev_internal = (), ev_t = t, ev_h = h, ev_y = (y0, y1) \<rparr> =
     \<lparr> ev_internal = (), ev_t = t + min h (t1 - t), ev_h = grow * min h (t1 - t),
       ev_y = (y0 + min h (t1 - t) * fst (sys_function sys t (y0, y1)),
               y1 + min h (t1 - t) * snd (sys_function sys t (y0, y1))) \<rparr>"
  by (simp add: euler_apply_def Let_def)

lemma de_sitter_bins: "bin_a de_sitter 0 = 1" "bin_a de_sitter (Suc 0) = 1 / 16"
  by (simp_all add: bin_a_def bin_z_def de_sitter_def sample_par_def)

lemma bin_solve_0: "bin_solve num par ipar 0 = standalone_solve num par ipar 0"
  by (simp add: bin_solve_def bins_loop_0 loop_init_def standalone_solve_def)

lemma bin_solve_Suc:
  "bin_solve num par ipar (Suc k) =
     (case bin_solve num par ipar k of
        None \<Rightarrow> None
      | Some p \<Rightarrow> solve_bin num ipar (bin_a par (Suc k)) (ev_internal p) (ev_h p))"
proof (cases "bins_loop num par ipar k")
  case None
  then show ?thesis by (simp add: bin_solve_def bins_loop_Suc)
next
  case (Some s)
  note s = this
  show ?thesis
  proof (cases "solve_bin num ipar (bin_a par k) (lp_evolve s) (lp_h s)")
    case None
    with s show ?thesis by (simp add: bin_solve_def bins_loop_Suc bin_body_def)
  next
    case (Some p)
    with s show ?thesis by (simp add: bin_solve_def bins_loop_Suc bin_body_def Let_def)
  qed
qed

lemma fill_table_growth:
  assumes "fill_table num par ipar = Some tb" and "i < nat (background_bins par)"
  shows "\<exists>ev. bin_solve num par ipar i = Some ev
              \<and> tb_D1 tb ! i = fst (ev_y ev)
              \<and> tb_f tb ! i = snd (ev_y ev) * bin_a par i / fst (ev_y ev)"
  using assms bins_loop_growth [of num par ipar "nat (background_bins par)" _ i]
  by (auto elim!: fill_tableE)

text \<open>
  C3, as the code has it. Every bin's solve starts from the fixed initial condition
  \<open>D1 = 0.05\<close>, \<open>D1' = 1\<close> at \<open>a = 0.05\<close> and runs to the scale factor of the bin, and the
  recorded \<open>D1\<close> and \<open>f = D1' \<cdot> a / D1\<close> are its result. The step size \<open>h\<close> and the stepper
  objects are not reset: the solve of bin \<open>0\<close> is the standalone one (fresh stepper,
  \<open>h = 1E-6\<close>), and the solve of bin \<open>k + 1\<close> starts with the step size and the stepper
  state that the solve of bin \<open>k\<close> left.
\<close>

theorem growth_per_bin_carried:
  assumes "fill_table num par ipar = Some tb" and "i < nat (background_bins par)"
  shows "(\<exists>ev. bin_solve num par ipar i = Some ev
              \<and> tb_D1 tb ! i = fst (ev_y ev)
              \<and> tb_f tb ! i = snd (ev_y ev) * tb_a tb ! i / tb_D1 tb ! i)
         \<and> bin_solve num par ipar 0 = standalone_solve num par ipar 0
         \<and> (\<forall>k. bin_solve num par ipar (Suc k) =
                  (case bin_solve num par ipar k of
                     None \<Rightarrow> None
                   | Some p \<Rightarrow> solve_bin num ipar (bin_a par (Suc k)) (ev_internal p) (ev_h p)))
         \<and> (\<forall>k. standalone_solve num par ipar k =
                  solve_bin num ipar (bin_a par k) (odeiv_alloc num) (1 / 10 ^ 6))
         \<and> (\<forall>a e h. solve_bin num ipar a e h =
                  growth_while (gsl_odeiv_evolve_apply num control (growth_sys ipar) a) a
                    \<lparr> ev_internal = e, ev_t = 5 / 100, ev_h = h, ev_y = (5 / 100, 1) \<rparr>)"
proof -
  from fill_table_growth [OF assms] obtain ev where ev: "bin_solve num par ipar i = Some ev"
    "tb_D1 tb ! i = fst (ev_y ev)" "tb_f tb ! i = snd (ev_y ev) * bin_a par i / fst (ev_y ev)"
    by blast
  from fill_table_cells [OF assms] have "tb_a tb ! i = bin_a par i"
    by (simp add: cell_ok_def)
  with ev have "\<exists>ev. bin_solve num par ipar i = Some ev
              \<and> tb_D1 tb ! i = fst (ev_y ev)
              \<and> tb_f tb ! i = snd (ev_y ev) * tb_a tb ! i / tb_D1 tb ! i"
    by simp
  then show ?thesis
    by (simp add: bin_solve_0 bin_solve_Suc) (simp add: standalone_solve_def solve_bin_def)
qed

lemma de_sitter_standalone_0:
  "map_option ev_h
     (standalone_solve (sample_backend (- 1) 2) de_sitter (tabulate (sample_backend (- 1) 2) de_sitter) 0)
   = Some (425713 / 500000)"
  by (simp add: standalone_solve_def solve_bin_def de_sitter_bins sample_backend_driver
      growth_while_step growth_while_done euler_step_eval de_sitter_rhs)

lemma de_sitter_carried_1:
  "map_option (\<lambda>ev. fst (ev_y ev))
     (solve_bin (sample_backend (- 1) 2) (tabulate (sample_backend (- 1) 2) de_sitter) (1 / 16) () (425713 / 500000))
   = Some (1 / 16)"
  by (simp add: solve_bin_def sample_backend_driver
      growth_while_step growth_while_done euler_step_eval de_sitter_rhs)

lemma de_sitter_standalone_1:
  "map_option (\<lambda>ev. fst (ev_y ev))
     (standalone_solve (sample_backend (- 1) 2) de_sitter (tabulate (sample_backend (- 1) 2) de_sitter) (Suc 0))
   = Some (2759072820012480636120173130473116430615809284777348119 / 46322389241043213006682841854987507974480826470000000000)"
  by (simp add: standalone_solve_def solve_bin_def de_sitter_bins sample_backend_driver
      growth_while_step growth_while_done euler_step_eval de_sitter_rhs)

lemma de_sitter_bin_solve_1:
  "map_option (\<lambda>ev. fst (ev_y ev))
     (bin_solve (sample_backend (- 1) 2) de_sitter (tabulate (sample_backend (- 1) 2) de_sitter) (Suc 0))
   = Some (1 / 16)"
proof -
  let ?num = "sample_backend (- 1) 2"
  let ?ipar = "tabulate ?num de_sitter"
  from de_sitter_standalone_0 obtain p where p: "standalone_solve ?num de_sitter ?ipar 0 = Some p"
    "ev_h p = 425713 / 500000" by auto
  from p(1) have "bin_solve ?num de_sitter ?ipar (Suc 0) = solve_bin ?num ?ipar (1 / 16) () (ev_h p)"
    by (simp add: bin_solve_Suc bin_solve_0 de_sitter_bins)
  then show ?thesis unfolding p(2) using de_sitter_carried_1 by simp
qed

lemma de_sitter_table_D1_1:
  "map_option (\<lambda>tb. tb_D1 tb ! 1)
     (fill_table (sample_backend (- 1) 2) de_sitter (tabulate (sample_backend (- 1) 2) de_sitter))
   = Some (1 / 16)"
proof -
  let ?num = "sample_backend (- 1) 2"
  let ?ipar = "tabulate ?num de_sitter"
  obtain tb where tb: "fill_table ?num de_sitter ?ipar = Some tb"
    using sample_fill_table [of 2 "- 1" de_sitter ?ipar] by auto
  have i: "1 < nat (background_bins de_sitter)" by (simp add: de_sitter_def sample_par_def)
  from fill_table_growth [OF tb i] de_sitter_bin_solve_1 tb show ?thesis by auto
qed

theorem growth_per_bin_carried_witness:
  "\<exists>tb. fill_table (sample_backend (- 1) 2) de_sitter (tabulate (sample_backend (- 1) 2) de_sitter) = Some tb
        \<and> tb_D1 tb ! 1 = 1 / 16"
proof -
  let ?num = "sample_backend (- 1) 2"
  let ?ipar = "tabulate ?num de_sitter"
  obtain tb where tb: "fill_table ?num de_sitter ?ipar = Some tb"
    using sample_fill_table [of 2 "- 1" de_sitter ?ipar] by auto
  have i: "1 < nat (background_bins de_sitter)" by (simp add: de_sitter_def sample_par_def)
  from growth_per_bin_carried [OF tb i] de_sitter_bin_solve_1 tb show ?thesis by auto
qed

text \<open>
  C3 as stated does not hold: with the sample backend (explicit Euler, step doubling),
  \<open>\<Omega>de = 1\<close>, \<open>w = - 1\<close> and two bins, the loop records \<open>D1 = 1/16\<close> for bin \<open>1\<close>
  (one step of size \<open>1/80\<close>, because the solve of bin \<open>0\<close> left \<open>h = 0.851426\<close>), and the
  standalone solve of bin \<open>1\<close> from \<open>h = 1E-6\<close> (fourteen steps) gives a smaller value.
\<close>

theorem growth_bins_not_independent:
  "map_option (\<lambda>tb. tb_D1 tb ! 1)
     (fill_table (sample_backend (- 1) 2) de_sitter (tabulate (sample_backend (- 1) 2) de_sitter))
   = Some (1 / 16)
   \<and> map_option (\<lambda>ev. fst (ev_y ev))
       (standalone_solve (sample_backend (- 1) 2) de_sitter (tabulate (sample_backend (- 1) 2) de_sitter) 1)
     = Some (2759072820012480636120173130473116430615809284777348119 / 46322389241043213006682841854987507974480826470000000000)
   \<and> (2759072820012480636120173130473116430615809284777348119 / 46322389241043213006682841854987507974480826470000000000 :: real) < 1 / 16"
  using de_sitter_table_D1_1 de_sitter_standalone_1 by simp

subsection \<open>Monotonicity of the table\<close>

lemma bin_z_mono:
  assumes "2 \<le> background_bins par" and "i < j"
  shows "bin_z par i < bin_z par j"
proof -
  from assms(1) have "0 < real_of_int (background_bins par - 1)" by simp
  with assms(2) show ?thesis
    unfolding bin_z_def by (intro divide_strict_right_mono) simp_all
qed

lemma bin_z_nonneg: "2 \<le> background_bins par \<Longrightarrow> 0 \<le> bin_z par i"
  by (simp add: bin_z_def)

lemma bin_z_last: 
  assumes "2 \<le> background_bins par"
  shows "bin_z par (nat (background_bins par) - 1) = 15"
proof -
  from assms have e: "real (nat (background_bins par) - 1) = real_of_int (background_bins par - 1)"
    by (simp add: of_nat_diff)
  from assms have nz: "real_of_int (background_bins par - 1) \<noteq> 0" by simp
  show ?thesis unfolding bin_z_def e using nz by (simp del: of_int_diff)
qed

lemma bin_z_le_15:
  assumes "2 \<le> background_bins par" and "j < nat (background_bins par)"
  shows "bin_z par j \<le> 15"
proof (cases "j = nat (background_bins par) - 1")
  case True
  with bin_z_last [OF assms(1)] show ?thesis by simp
next
  case False
  with assms(2) have "j < nat (background_bins par) - 1" by simp
  from bin_z_mono [OF assms(1) this] bin_z_last [OF assms(1)] show ?thesis by simp
qed

lemma bin_a_antimono:
  assumes "2 \<le> background_bins par" and "i < j"
  shows "bin_a par j < bin_a par i"
proof -
  from bin_z_mono [OF assms] bin_z_nonneg [OF assms(1), of i]
  show ?thesis unfolding bin_a_def by (intro divide_strict_left_mono) (simp_all add: zero_less_mult_iff)
qed

lemma bin_Hz_mono:
  assumes N: "2 \<le> background_bins par" and ij: "i < j" and j: "j < nat (background_bins par)"
    and om: "0 \<le> Omega0_cdm par" "0 \<le> Omega0_baryon par" "0 \<le> Omega0_gamma par" "0 \<le> Omega0_de par"
    and w: "\<forall>x y. 0 \<le> x \<and> x \<le> y \<and> y \<le> 15 \<longrightarrow>
              interp_spline (ip_wint ipar) x \<le> interp_spline (ip_wint ipar) y"
  shows "bin_Hz par ipar i \<le> bin_Hz par ipar j"
proof -
  let ?zi = "bin_z par i" and ?zj = "bin_z par j"
  have z: "0 \<le> ?zi" "?zi \<le> ?zj" "?zj \<le> 15"
    using bin_z_nonneg [OF N] bin_z_mono [OF N ij] bin_z_le_15 [OF N j] by simp_all
  have p3: "(1 + ?zi) ^ 3 \<le> (1 + ?zj) ^ 3" and p4: "(1 + ?zi) ^ 4 \<le> (1 + ?zj) ^ 4"
    using z by (simp_all add: power_mono)
  have a: "(Omega0_cdm par + Omega0_baryon par) * (1 + ?zi) ^ 3
           \<le> (Omega0_cdm par + Omega0_baryon par) * (1 + ?zj) ^ 3"
    using om p3 by (intro mult_left_mono) simp_all
  have b: "Omega0_gamma par * (1 + ?zi) ^ 4 \<le> Omega0_gamma par * (1 + ?zj) ^ 4"
    using om p4 by (intro mult_left_mono) simp_all
  have "interp_spline (ip_wint ipar) ?zi \<le> interp_spline (ip_wint ipar) ?zj"
    using w z by blast
  then have c: "Omega0_de par * interp_spline (ip_wint ipar) ?zi
                \<le> Omega0_de par * interp_spline (ip_wint ipar) ?zj"
    using om by (intro mult_left_mono) simp_all
  from a b c show ?thesis
    unfolding bin_Hz_def Let_def by (intro real_sqrt_le_mono add_mono)
qed

lemma bin_z_step:
  assumes N: "2 \<le> background_bins par" and ij: "i < j"
  shows "15 / real_of_int (background_bins par - 1) \<le> bin_z par j - bin_z par i"
proof -
  from N have p: "0 < real_of_int (background_bins par - 1)" by simp
  from ij have "real i + 1 \<le> real j" by simp
  then have "15 * 1 \<le> 15 * (real j - real i)" by (intro mult_left_mono) simp_all
  then have "15 / real_of_int (background_bins par - 1)
             \<le> 15 * (real j - real i) / real_of_int (background_bins par - 1)"
    using p by (intro divide_right_mono) simp_all
  also have "\<dots> = bin_z par j - bin_z par i"
    by (simp add: bin_z_def diff_divide_distrib right_diff_distrib)
  finally show ?thesis .
qed

lemma integrand_comoving_lower:
  assumes "0 < (ip_Omega0_cdm ipar + ip_Omega0_baryon ipar) * (1 + x) ^ 3
               + ip_Omega0_gamma ipar * (1 + x) ^ 4
               + ip_Omega0_de ipar * interp_spline (ip_wint ipar) x"
    and "(ip_Omega0_cdm ipar + ip_Omega0_baryon ipar) * (1 + x) ^ 3
               + ip_Omega0_gamma ipar * (1 + x) ^ 4
               + ip_Omega0_de ipar * interp_spline (ip_wint ipar) x \<le> R"
  shows "1 / sqrt R \<le> integrand_comoving ipar x"
  unfolding integrand_comoving_def using assms
  by (intro divide_left_mono) (simp_all add: zero_less_mult_iff)

lemma bin_comoving_distance_mono:
  assumes N: "2 \<le> background_bins par" and ij: "i < j" and j: "j < nat (background_bins par)"
    and r: "\<forall>x. 0 \<le> x \<and> x \<le> 15 \<longrightarrow>
              0 < (ip_Omega0_cdm ipar + ip_Omega0_baryon ipar) * (1 + x) ^ 3
                  + ip_Omega0_gamma ipar * (1 + x) ^ 4
                  + ip_Omega0_de ipar * interp_spline (ip_wint ipar) x
              \<and> (ip_Omega0_cdm ipar + ip_Omega0_baryon ipar) * (1 + x) ^ 3
                  + ip_Omega0_gamma ipar * (1 + x) ^ 4
                  + ip_Omega0_de ipar * interp_spline (ip_wint ipar) x \<le> R"
    and low: "\<forall>b c m. 0 \<le> b \<and> b \<le> c \<and> c \<le> 15
                \<and> (\<forall>x. b \<le> x \<and> x \<le> c \<longrightarrow> m \<le> integrand_comoving ipar x)
              \<longrightarrow> m * (c - b) \<le> J c - J b"
    and acc: "\<forall>z. 0 \<le> z \<and> z \<le> 15 \<longrightarrow>
                \<bar>gsl_integration_qag num (integrand_comoving ipar) 0 z 0 prec - J z\<bar> \<le> \<delta>"
    and small: "2 * \<delta> * sqrt R * real_of_int (background_bins par - 1) < 15"
  shows "bin_comoving_distance num par ipar i < bin_comoving_distance num par ipar j"
proof -
  let ?zi = "bin_z par i" and ?zj = "bin_z par j"
  let ?q = "\<lambda>z. gsl_integration_qag num (integrand_comoving ipar) 0 z 0 prec"
  let ?n = "real_of_int (background_bins par - 1)"
  have z: "0 \<le> ?zi" "?zi \<le> ?zj" "?zj \<le> 15"
    using bin_z_nonneg [OF N] bin_z_mono [OF N ij] bin_z_le_15 [OF N j] by simp_all
  from N have n: "0 < ?n" by simp
  from r have "0 < R" by (meson order_refl zero_le_numeral less_le_trans)
  then have sR: "0 < sqrt R" by simp
  have "\<forall>x. ?zi \<le> x \<and> x \<le> ?zj \<longrightarrow> 1 / sqrt R \<le> integrand_comoving ipar x"
  proof (intro allI impI)
    fix x assume "?zi \<le> x \<and> x \<le> ?zj"
    with z have "0 \<le> x \<and> x \<le> 15" by simp
    with r show "1 / sqrt R \<le> integrand_comoving ipar x"
      by (intro integrand_comoving_lower) blast+
  qed
  with low z have J: "1 / sqrt R * (?zj - ?zi) \<le> J ?zj - J ?zi" by blast
  have "15 / ?n \<le> ?zj - ?zi" by (rule bin_z_step [OF N ij])
  then have "1 / sqrt R * (15 / ?n) \<le> 1 / sqrt R * (?zj - ?zi)"
    using sR by (intro mult_left_mono) simp_all
  with J have s: "15 / (sqrt R * ?n) \<le> J ?zj - J ?zi" by simp
  from small sR n have "2 * \<delta> < 15 / (sqrt R * ?n)"
    by (simp add: field_simps)
  with s have d: "2 * \<delta> < J ?zj - J ?zi" by simp
  from acc z have "\<bar>?q ?zi - J ?zi\<bar> \<le> \<delta>" "\<bar>?q ?zj - J ?zj\<bar> \<le> \<delta>" by simp_all
  with d have "?q ?zi < ?q ?zj" by linarith
  then show ?thesis by (simp add: bin_comoving_distance_def)
qed

text \<open>
  C8, as the code has it. For \<open>background_bins \<ge> 2\<close> and a run that ends: the redshift
  array is \<open>z\<^sub>k = 15 k / (N - 1)\<close>, from \<open>z\<^sub>0 = 0\<close> to \<open>z\<^sub>N\<^sub>-\<^sub>1 = 15\<close>, strictly
  increasing; the scale-factor array is \<open>a = 1 / (1 + z)\<close>, strictly decreasing in \<open>z\<close>; the
  Hubble array is non-decreasing in \<open>z\<close> when the density fractions are non-negative and
  the tabulated \<open>wint\<close> is non-negative and non-decreasing on \<open>[0, 15]\<close>; the
  comoving-distance array is strictly increasing in \<open>z\<close> when the radicand of \<open>H\<close> lies in
  \<open>(0, R]\<close> on \<open>[0, 15]\<close>, the quadrature of the comoving integrand from \<open>0\<close> to \<open>z\<close> is
  within \<open>\<delta>\<close> of its integral \<open>J z\<close> for \<open>z\<close> in \<open>[0, 15]\<close>, and
  \<open>2 \<delta> \<surd>R (N - 1) < 15\<close>: the error of the quadrature is below half of the smallest
  increment of the distance between two bins. Of the integral, the statement uses that
  \<open>J c - J b \<ge> m (c - b)\<close> when the integrand is at least \<open>m\<close> between \<open>b\<close> and \<open>c\<close>.
\<close>

theorem table_monotone:
  assumes N: "2 \<le> background_bins par"
    and tb: "fill_table num par (tabulate num par) = Some tb"
    and ij: "i < j" and j: "j < nat (background_bins par)"
  shows "(\<forall>k < nat (background_bins par).
            tb_z tb ! k = 15 * real k / real_of_int (background_bins par - 1)
            \<and> tb_a tb ! k = 1 / (1 + tb_z tb ! k))
         \<and> tb_z tb ! 0 = 0
         \<and> tb_z tb ! (nat (background_bins par) - 1) = 15
         \<and> tb_z tb ! i < tb_z tb ! j
         \<and> tb_a tb ! j < tb_a tb ! i
         \<and> (0 \<le> Omega0_cdm par \<and> 0 \<le> Omega0_baryon par \<and> 0 \<le> Omega0_gamma par \<and> 0 \<le> Omega0_de par
             \<and> (\<forall>x. 0 \<le> x \<and> x \<le> 15 \<longrightarrow> 0 \<le> interp_spline (ip_wint (tabulate num par)) x)
             \<and> (\<forall>x y. 0 \<le> x \<and> x \<le> y \<and> y \<le> 15 \<longrightarrow>
                   interp_spline (ip_wint (tabulate num par)) x \<le> interp_spline (ip_wint (tabulate num par)) y)
            \<longrightarrow> tb_Hz tb ! i \<le> tb_Hz tb ! j)
         \<and> ((\<forall>x. 0 \<le> x \<and> x \<le> 15 \<longrightarrow>
                  0 < (Omega0_cdm par + Omega0_baryon par) * (1 + x) ^ 3
                      + Omega0_gamma par * (1 + x) ^ 4
                      + Omega0_de par * interp_spline (ip_wint (tabulate num par)) x
                  \<and> (Omega0_cdm par + Omega0_baryon par) * (1 + x) ^ 3
                      + Omega0_gamma par * (1 + x) ^ 4
                      + Omega0_de par * interp_spline (ip_wint (tabulate num par)) x \<le> R)
             \<and> (\<forall>b c m. 0 \<le> b \<and> b \<le> c \<and> c \<le> 15
                   \<and> (\<forall>x. b \<le> x \<and> x \<le> c \<longrightarrow> m \<le> integrand_comoving (tabulate num par) x)
                   \<longrightarrow> m * (c - b) \<le> J c - J b)
             \<and> (\<forall>z. 0 \<le> z \<and> z \<le> 15 \<longrightarrow>
                   \<bar>gsl_integration_qag num (integrand_comoving (tabulate num par)) 0 z 0 prec - J z\<bar>
                   \<le> \<delta>)
             \<and> 2 * \<delta> * sqrt R * real_of_int (background_bins par - 1) < 15
            \<longrightarrow> tb_comoving_distance tb ! i < tb_comoving_distance tb ! j)"
proof -
  let ?ipar = "tabulate num par"
  from ij j have i: "i < nat (background_bins par)" by simp
  from N have l: "nat (background_bins par) - 1 < nat (background_bins par)"
    and o: "0 < nat (background_bins par)" by simp_all
  have c: "\<And>k. k < nat (background_bins par) \<Longrightarrow> cell_ok num par ?ipar tb k"
    by (rule fill_table_cells [OF tb])
  have 1: "\<forall>k < nat (background_bins par).
            tb_z tb ! k = 15 * real k / real_of_int (background_bins par - 1)
            \<and> tb_a tb ! k = 1 / (1 + tb_z tb ! k)"
    using c by (simp add: cell_ok_def bin_z_def bin_a_def)
  have 2: "tb_z tb ! 0 = 0" using c [OF o] by (simp add: cell_ok_def bin_z_0)
  have 3: "tb_z tb ! (nat (background_bins par) - 1) = 15"
    using c [OF l] bin_z_last [OF N] by (simp add: cell_ok_def)
  have 4: "tb_z tb ! i < tb_z tb ! j"
    using c [OF i] c [OF j] bin_z_mono [OF N ij] by (simp add: cell_ok_def)
  have 5: "tb_a tb ! j < tb_a tb ! i"
    using c [OF i] c [OF j] bin_a_antimono [OF N ij] by (simp add: cell_ok_def)
  have 6: "tb_Hz tb ! i \<le> tb_Hz tb ! j"
    if "0 \<le> Omega0_cdm par" "0 \<le> Omega0_baryon par" "0 \<le> Omega0_gamma par" "0 \<le> Omega0_de par"
      "\<forall>x y. 0 \<le> x \<and> x \<le> y \<and> y \<le> 15 \<longrightarrow>
          interp_spline (ip_wint ?ipar) x \<le> interp_spline (ip_wint ?ipar) y"
    using c [OF i] c [OF j] bin_Hz_mono [OF N ij j that] by (simp add: cell_ok_def)
  have 7: "tb_comoving_distance tb ! i < tb_comoving_distance tb ! j"
    if r: "\<forall>x. 0 \<le> x \<and> x \<le> 15 \<longrightarrow>
                  0 < (Omega0_cdm par + Omega0_baryon par) * (1 + x) ^ 3
                      + Omega0_gamma par * (1 + x) ^ 4
                      + Omega0_de par * interp_spline (ip_wint ?ipar) x
                  \<and> (Omega0_cdm par + Omega0_baryon par) * (1 + x) ^ 3
                      + Omega0_gamma par * (1 + x) ^ 4
                      + Omega0_de par * interp_spline (ip_wint ?ipar) x \<le> R"
      and low: "\<forall>b c m. 0 \<le> b \<and> b \<le> c \<and> c \<le> 15
                   \<and> (\<forall>x. b \<le> x \<and> x \<le> c \<longrightarrow> m \<le> integrand_comoving ?ipar x)
                   \<longrightarrow> m * (c - b) \<le> J c - J b"
      and acc: "\<forall>z. 0 \<le> z \<and> z \<le> 15 \<longrightarrow>
                   \<bar>gsl_integration_qag num (integrand_comoving ?ipar) 0 z 0 prec - J z\<bar> \<le> \<delta>"
      and small: "2 * \<delta> * sqrt R * real_of_int (background_bins par - 1) < 15"
  proof -
    from r have "\<forall>x. 0 \<le> x \<and> x \<le> 15 \<longrightarrow>
              0 < (ip_Omega0_cdm ?ipar + ip_Omega0_baryon ?ipar) * (1 + x) ^ 3
                  + ip_Omega0_gamma ?ipar * (1 + x) ^ 4
                  + ip_Omega0_de ?ipar * interp_spline (ip_wint ?ipar) x
              \<and> (ip_Omega0_cdm ?ipar + ip_Omega0_baryon ?ipar) * (1 + x) ^ 3
                  + ip_Omega0_gamma ?ipar * (1 + x) ^ 4
                  + ip_Omega0_de ?ipar * interp_spline (ip_wint ?ipar) x \<le> R"
      by (simp only: tabulate_fields(4-7))
    from bin_comoving_distance_mono [OF N ij j this low acc small] c [OF i] c [OF j]
    show ?thesis by (simp add: cell_ok_def)
  qed
  from 1 2 3 4 5 6 7 show ?thesis by blast
qed


lemma sample_ip_wint:
  "interp_spline (ip_wint (tabulate (sample_backend w0 grow) par)) z
   = exp (3 * (grid_z (min bins (nat \<lfloor>z / grid_z 1\<rfloor>)) * (1 + w0)))"
proof -
  let ?num = "sample_backend w0 grow"
  let ?w = "ip_w (tabulate ?num par)"
  let ?k = "min bins (nat \<lfloor>z / grid_z 1\<rfloor>)"
  have z0: "z_array ! 0 = 0" and z1: "z_array ! Suc 0 = grid_z (Suc 0)"
    using grid_nth(1) [of 0] grid_nth(1) [of "Suc 0"] by (simp_all add: grid_z_0 bins_def)
  have "init_spline ?num = hold_spline" by (simp add: sample_backend_def)
  then have "interp_spline (ip_wint (tabulate ?num par)) z = wint_array ?num ?w ! ?k"
    by (simp add: tabulate_fields(2) interp_spline_def hold_spline_def z0 z1)
  also have "\<dots> = integral_w ?num ?w (grid_z ?k)"
    by (rule grid_nth(4)) simp
  also have "\<dots> = exp (3 * (grid_z ?k * (1 + w0)))"
  proof -
    have q: "gsl_integration_qag ?num = left_endpoint_rule" by (simp add: sample_backend_def)
    have "integrand_w ?w 0 = 1 + w0" by (simp add: integrand_w_def sample_ip_w)
    then show ?thesis by (simp add: integral_w_def q left_endpoint_rule_def)
  qed
  finally show ?thesis .
qed

lemma lcdm_radicand:
  "(Omega0_cdm (sample_par (1 / 4) (1 / 20) 0 (7 / 10) n) + Omega0_baryon (sample_par (1 / 4) (1 / 20) 0 (7 / 10) n))
     * (1 + x) ^ 3
   + Omega0_gamma (sample_par (1 / 4) (1 / 20) 0 (7 / 10) n) * (1 + x) ^ 4
   + Omega0_de (sample_par (1 / 4) (1 / 20) 0 (7 / 10) n)
     * interp_spline (ip_wint (tabulate (sample_backend (- 1) grow) (sample_par (1 / 4) (1 / 20) 0 (7 / 10) n))) x
   = 3 / 10 * (1 + x) ^ 3 + 7 / 10"
  by (simp add: sample_ip_wint sample_par_def)

lemma lcdm_integrand:
  "integrand_comoving (tabulate (sample_backend (- 1) grow) (sample_par (1 / 4) (1 / 20) 0 (7 / 10) n)) x
   = 1 / sqrt (3 / 10 * (1 + x) ^ 3 + 7 / 10)"
  unfolding integrand_comoving_def tabulate_fields(4-7) lcdm_radicand ..

lemma lcdm_integrand_le_1:
  assumes "0 \<le> x"
  shows "integrand_comoving (tabulate (sample_backend (- 1) grow) (sample_par (1 / 4) (1 / 20) 0 (7 / 10) n)) x \<le> 1"
proof -
  from assms have "1 ^ 3 \<le> (1 + x) ^ 3" by (intro power_mono) simp_all
  then have "1 \<le> 3 / 10 * (1 + x) ^ 3 + 7 / 10" by simp
  then have "1 \<le> sqrt (3 / 10 * (1 + x) ^ 3 + 7 / 10)" by simp
  then show ?thesis unfolding lcdm_integrand by simp
qed

lemma lcdm_quadrature:
  "gsl_integration_qag (sample_backend (- 1) grow)
     (integrand_comoving (tabulate (sample_backend (- 1) grow) (sample_par (1 / 4) (1 / 20) 0 (7 / 10) n)))
     0 z 0 prec = z"
proof -
  have "gsl_integration_qag (sample_backend (- 1) grow) = left_endpoint_rule"
    by (simp add: sample_backend_def)
  then show ?thesis by (simp add: left_endpoint_rule_def lcdm_integrand)
qed

theorem table_monotone_witness:
  "\<exists>tb. fill_table (sample_backend (- 1) 2) (sample_par (1 / 4) (1 / 20) 0 (7 / 10) 2)
           (tabulate (sample_backend (- 1) 2) (sample_par (1 / 4) (1 / 20) 0 (7 / 10) 2)) = Some tb
        \<and> tb_z tb ! 0 = 0 \<and> tb_z tb ! 1 = 15 \<and> tb_a tb ! 1 < tb_a tb ! 0
        \<and> tb_Hz tb ! 0 \<le> tb_Hz tb ! 1
        \<and> tb_comoving_distance tb ! 0 < tb_comoving_distance tb ! 1"
proof -
  let ?num = "sample_backend (- 1) 2"
  let ?par = "sample_par (1 / 4) (1 / 20) 0 (7 / 10) 2"
  obtain tb where tb: "fill_table ?num ?par (tabulate ?num ?par) = Some tb"
    using sample_fill_table [of 2 "- 1" ?par "tabulate ?num ?par"] by auto
  have N: "2 \<le> background_bins ?par" and j: "1 < nat (background_bins ?par)"
    and l: "nat (background_bins ?par) - 1 = 1"
    by (simp_all add: sample_par_def)
  have ij: "(0::nat) < 1" by simp
  have om: "0 \<le> Omega0_cdm ?par \<and> 0 \<le> Omega0_baryon ?par \<and> 0 \<le> Omega0_gamma ?par \<and> 0 \<le> Omega0_de ?par"
    by (simp add: sample_par_def)
  have w: "\<forall>x y. 0 \<le> x \<and> x \<le> y \<and> y \<le> 15 \<longrightarrow>
             interp_spline (ip_wint (tabulate ?num ?par)) x \<le> interp_spline (ip_wint (tabulate ?num ?par)) y"
    and p: "\<forall>x. 0 \<le> x \<and> x \<le> 15 \<longrightarrow> 0 \<le> interp_spline (ip_wint (tabulate ?num ?par)) x"
    by (simp_all add: sample_ip_wint)
  have r: "\<forall>x. 0 \<le> x \<and> x \<le> 15 \<longrightarrow>
             0 < (Omega0_cdm ?par + Omega0_baryon ?par) * (1 + x) ^ 3
                 + Omega0_gamma ?par * (1 + x) ^ 4
                 + Omega0_de ?par * interp_spline (ip_wint (tabulate ?num ?par)) x
             \<and> (Omega0_cdm ?par + Omega0_baryon ?par) * (1 + x) ^ 3
                 + Omega0_gamma ?par * (1 + x) ^ 4
                 + Omega0_de ?par * interp_spline (ip_wint (tabulate ?num ?par)) x \<le> 1230"
  proof (intro allI impI)
    fix x :: real assume x: "0 \<le> x \<and> x \<le> 15"
    then have "(1 + x) ^ 3 \<le> 16 ^ 3" by (intro power_mono) simp_all
    then have u: "(1 + x) ^ 3 \<le> 4096" by simp
    from x have l: "0 \<le> (1 + x) ^ 3" by (intro zero_le_power) simp
    from u l show "0 < (Omega0_cdm ?par + Omega0_baryon ?par) * (1 + x) ^ 3
                 + Omega0_gamma ?par * (1 + x) ^ 4
                 + Omega0_de ?par * interp_spline (ip_wint (tabulate ?num ?par)) x
             \<and> (Omega0_cdm ?par + Omega0_baryon ?par) * (1 + x) ^ 3
                 + Omega0_gamma ?par * (1 + x) ^ 4
                 + Omega0_de ?par * interp_spline (ip_wint (tabulate ?num ?par)) x \<le> 1230"
      unfolding lcdm_radicand by linarith
  qed
  have low: "\<forall>b c m. 0 \<le> b \<and> b \<le> c \<and> c \<le> 15
               \<and> (\<forall>x. b \<le> x \<and> x \<le> c \<longrightarrow> m \<le> integrand_comoving (tabulate ?num ?par) x)
               \<longrightarrow> m * (c - b) \<le> c - b"
  proof (intro allI impI)
    fix b c m :: real
    assume h: "0 \<le> b \<and> b \<le> c \<and> c \<le> 15
               \<and> (\<forall>x. b \<le> x \<and> x \<le> c \<longrightarrow> m \<le> integrand_comoving (tabulate ?num ?par) x)"
    then have "m \<le> integrand_comoving (tabulate ?num ?par) b" by simp
    also have "\<dots> \<le> 1" using h by (intro lcdm_integrand_le_1) simp
    finally have "m * (c - b) \<le> 1 * (c - b)" using h by (intro mult_right_mono) simp_all
    then show "m * (c - b) \<le> c - b" by simp
  qed
  have acc: "\<forall>z. 0 \<le> z \<and> z \<le> 15 \<longrightarrow>
               \<bar>gsl_integration_qag ?num (integrand_comoving (tabulate ?num ?par)) 0 z 0 prec - z\<bar> \<le> 0"
    by (simp add: lcdm_quadrature)
  have small: "2 * 0 * sqrt 1230 * real_of_int (background_bins ?par - 1) < 15" by simp
  from table_monotone [OF N tb ij j, of 1230 "\<lambda>z. z" 0] om w p r low acc small tb l
  show ?thesis by (intro exI [of _ tb]) simp
qed

lemma phantom_Hz_0: "bin_Hz lcdm_151 (tabulate phantom_backend lcdm_151) 0 = 1"
  by (simp add: bin_Hz_def bin_z_0 phantom_backend_def sample_ip_wint grid_z_0)
     (simp add: lcdm_151_def sample_par_def)

lemma phantom_Hz_1: "bin_Hz lcdm_151 (tabulate phantom_backend lcdm_151) 1 < 1"
proof -
  have z: "bin_z lcdm_151 1 = 1 / 10"
    by (simp add: bin_z_def lcdm_151_def sample_par_def)
  have k: "min bins (nat \<lfloor>(1 / 10 :: real) / grid_z 1\<rfloor>) = 16"
    by (simp add: grid_z_def z_max_def bins_def)
  have g: "grid_z 16 = 25 / 256"
    by (simp add: grid_z_def z_max_def bins_def)
  have w: "interp_spline (ip_wint (tabulate phantom_backend lcdm_151)) (1 / 10) = exp (- (75 / 256))"
    unfolding phantom_backend_def sample_ip_wint k g by simp
  have "1 + 75 / 256 \<le> exp (75 / 256 :: real)" by (rule exp_ge_add_one_self)
  then have "inverse (exp (75 / 256 :: real)) \<le> inverse (1 + 75 / 256)"
    by (intro le_imp_inverse_le) simp_all
  then have e: "exp (- (75 / 256) :: real) \<le> 256 / 331"
    by (simp add: exp_minus)
  have "(3 / 10) * (1 + 1 / 10) ^ 3 + 0 * (1 + 1 / 10) ^ 4 + (7 / 10) * exp (- (75 / 256) :: real)
        \<le> (3 / 10) * (1 + 1 / 10) ^ 3 + (7 / 10) * (256 / 331)"
    using e by simp
  also have "\<dots> < (1 :: real)" by (simp add: power3_eq_cube)
  finally have "sqrt ((3 / 10) * (1 + 1 / 10) ^ 3 + 0 * (1 + 1 / 10) ^ 4 + (7 / 10) * exp (- (75 / 256) :: real)) < sqrt 1"
    by (rule real_sqrt_less_mono)
  then show ?thesis
    unfolding bin_Hz_def Let_def z w by (simp add: lcdm_151_def sample_par_def)
qed

text \<open>
  C8 as stated does not hold: non-negative density fractions do not make \<open>H\<close>
  non-decreasing. With \<open>\<Omega>cdm = 0.25\<close>, \<open>\<Omega>baryon = 0.05\<close>, \<open>\<Omega>\<gamma> = 0\<close>, \<open>\<Omega>de = 0.7\<close>, the
  equation of state \<open>w = - 2\<close> and 151 bins, \<open>wint\<close> decreases and the recorded
  \<open>H(0.1)\<close> is below \<open>H(0) = 1\<close>.
\<close>

theorem hubble_not_monotone:
  "2 \<le> background_bins lcdm_151
   \<and> 0 \<le> Omega0_cdm lcdm_151 \<and> 0 \<le> Omega0_baryon lcdm_151
   \<and> 0 \<le> Omega0_gamma lcdm_151 \<and> 0 \<le> Omega0_de lcdm_151
   \<and> map_option (\<lambda>tb. (tb_z tb ! 0, tb_z tb ! 1, tb_Hz tb ! 0, tb_Hz tb ! 1 < tb_Hz tb ! 0))
       (fill_table phantom_backend lcdm_151 (tabulate phantom_backend lcdm_151))
     = Some (0, 1 / 10, 1, True)"
proof -
  let ?ipar = "tabulate phantom_backend lcdm_151"
  obtain tb where tb: "fill_table phantom_backend lcdm_151 ?ipar = Some tb"
    using sample_fill_table [of 2 "- 2" lcdm_151 ?ipar] by (auto simp: phantom_backend_def)
  have n: "0 < nat (background_bins lcdm_151)" "1 < nat (background_bins lcdm_151)"
    by (simp_all add: lcdm_151_def sample_par_def)
  have z: "bin_z lcdm_151 1 = 1 / 10"
    by (simp add: bin_z_def lcdm_151_def sample_par_def)
  from fill_table_cells [OF tb n(1)] fill_table_cells [OF tb n(2)]
  have "tb_z tb ! 0 = 0" "tb_z tb ! 1 = 1 / 10" "tb_Hz tb ! 0 = 1" "tb_Hz tb ! 1 < 1"
    using phantom_Hz_0 phantom_Hz_1 z by (simp_all add: cell_ok_def bin_z_0)
  with tb show ?thesis by (simp add: lcdm_151_def sample_par_def)
qed

end
